theory Spec2Isabelle
  imports Main "HOL-Library.List_Lexorder" "HOL-Library.Char_ord"
begin

section \<open>Scoped locations (neuraxle/metaopt/data/vanilla.py)\<close>

text \<open>
  A coordinate of a scoped location is a string or an integer
  (\<^verbatim>\<open>ScopedLocationAttr = Union[str, int]\<close>); an unset coordinate is Python's
  \<^verbatim>\<open>None\<close>, here \<open>None\<close> of the option type.
\<close>

datatype ScopedLocationAttr = AttrStr string | AttrInt int

text \<open>
  The exceptions the modelled code raises, as values. \<open>InvalidJSONFile\<close> is the
  \<^verbatim>\<open>ValueError\<close> that \<^verbatim>\<open>_load_json_file\<close> raises, with the three values its
  message reports.
\<close>

datatype py_error =
    ValueError
  | KeyError
  | TypeError
  | IndexError
  | AttributeError
  | NameError string
  | UnboundLocalError string
  | AssertionError
  | OSError
  | InvalidJSONFile string "string list" "string list"

text \<open>
  The dataclass types of the metadata tree. The keys of the ordered dictionary
  \<^verbatim>\<open>dataclass_2_id_attr\<close> are the six types below the root, in this order.
\<close>

datatype dataklass =
    RootDataclass
  | ProjectDataclass
  | ClientDataclass
  | RoundDataclass
  | TrialDataclass
  | TrialSplitDataclass
  | MetricResultsDataclass

record ScopedLocation =
  project_name :: "ScopedLocationAttr option"
  client_name :: "ScopedLocationAttr option"
  round_number :: "ScopedLocationAttr option"
  trial_number :: "ScopedLocationAttr option"
  split_number :: "ScopedLocationAttr option"
  metric_name :: "ScopedLocationAttr option"

definition dataclass_2_id_attr_keys :: "dataklass list" where
  "dataclass_2_id_attr_keys =
     [ProjectDataclass, ClientDataclass, RoundDataclass, TrialDataclass,
      TrialSplitDataclass, MetricResultsDataclass]"

text \<open>
  \<^verbatim>\<open>getattr(self, dataclass_2_id_attr[key])\<close> and
  \<^verbatim>\<open>setattr(self, dataclass_2_id_attr[key], value)\<close>. The root type is no key of
  \<^verbatim>\<open>dataclass_2_id_attr\<close>; every caller in the source excludes it before the
  lookup, so the root case below is never reached from the modelled code.
\<close>

fun loc_getattr :: "ScopedLocation \<Rightarrow> dataklass \<Rightarrow> ScopedLocationAttr option" where
  "loc_getattr l ProjectDataclass = project_name l"
| "loc_getattr l ClientDataclass = client_name l"
| "loc_getattr l RoundDataclass = round_number l"
| "loc_getattr l TrialDataclass = trial_number l"
| "loc_getattr l TrialSplitDataclass = split_number l"
| "loc_getattr l MetricResultsDataclass = metric_name l"
| "loc_getattr l RootDataclass = None"

fun loc_setattr ::
  "ScopedLocation \<Rightarrow> dataklass \<Rightarrow> ScopedLocationAttr option \<Rightarrow> ScopedLocation" where
  "loc_setattr l ProjectDataclass v = l\<lparr>project_name := v\<rparr>"
| "loc_setattr l ClientDataclass v = l\<lparr>client_name := v\<rparr>"
| "loc_setattr l RoundDataclass v = l\<lparr>round_number := v\<rparr>"
| "loc_setattr l TrialDataclass v = l\<lparr>trial_number := v\<rparr>"
| "loc_setattr l TrialSplitDataclass v = l\<lparr>split_number := v\<rparr>"
| "loc_setattr l MetricResultsDataclass v = l\<lparr>metric_name := v\<rparr>"
| "loc_setattr l RootDataclass v = l"

text \<open>\<^verbatim>\<open>ScopedLocation()\<close>: every coordinate unset.\<close>

definition ScopedLocation_empty :: ScopedLocation where
  "ScopedLocation_empty =
     \<lparr>project_name = None, client_name = None, round_number = None,
      trial_number = None, split_number = None, metric_name = None\<rparr>"

text \<open>
  \<^verbatim>\<open>ScopedLocation(*args)\<close>: the generated dataclass constructor takes at most six
  positional arguments and raises \<^verbatim>\<open>TypeError\<close> on more; missing ones default to
  \<^verbatim>\<open>None\<close>.
\<close>

fun nth_or_None :: "'a option list \<Rightarrow> nat \<Rightarrow> 'a option" where
  "nth_or_None [] n = None"
| "nth_or_None (x # xs) 0 = x"
| "nth_or_None (x # xs) (Suc n) = nth_or_None xs n"

definition loc_of_args :: "ScopedLocationAttr option list \<Rightarrow> ScopedLocation" where
  "loc_of_args args =
     \<lparr>project_name = nth_or_None args 0, client_name = nth_or_None args 1,
      round_number = nth_or_None args 2, trial_number = nth_or_None args 3,
      split_number = nth_or_None args 4, metric_name = nth_or_None args 5\<rparr>"

definition ScopedLocation_init ::
  "ScopedLocationAttr option list \<Rightarrow> py_error + ScopedLocation" where
  "ScopedLocation_init args =
     (if length args > 6 then Inl TypeError else Inr (loc_of_args args))"

text \<open>
  \<^verbatim>\<open>as_list\<close>: the coordinates in the order of \<^verbatim>\<open>dataclass_2_id_attr\<close>, cut at
  the first \<^verbatim>\<open>None\<close> (the loop over \<^verbatim>\<open>_list + [None]\<close> breaks there).
\<close>

fun until_None :: "'a option list \<Rightarrow> 'a list" where
  "until_None [] = []"
| "until_None (None # xs) = []"
| "until_None (Some x # xs) = x # until_None xs"

definition as_list :: "ScopedLocation \<Rightarrow> ScopedLocationAttr list" where
  "as_list l = until_None (map (loc_getattr l) dataclass_2_id_attr_keys)"

text \<open>\<^verbatim>\<open>__len__\<close>: the number of coordinates \<^verbatim>\<open>as_list\<close> returns.\<close>

definition loc_len :: "ScopedLocation \<Rightarrow> nat" where
  "loc_len l = length (as_list l)"

text \<open>\<^verbatim>\<open>with_id\<close>: \<^verbatim>\<open>ScopedLocation(*(self.as_list() + [_id]))\<close>.\<close>

definition with_id :: "ScopedLocation \<Rightarrow> ScopedLocationAttr \<Rightarrow> py_error + ScopedLocation" where
  "with_id l i = ScopedLocation_init (map Some (as_list l) @ [Some i])"


definition popped :: "ScopedLocation \<Rightarrow> py_error + ScopedLocation" where
  "popped l = ScopedLocation_init (map Some (butlast (as_list l)))"

text \<open>
  \<^verbatim>\<open>pop\<close> walks the attribute names in reverse order, unsets the first one that is
  not \<^verbatim>\<open>None\<close> and returns its value; when every coordinate is unset the loop
  ends and the method returns \<^verbatim>\<open>None\<close>. The method mutates the location in
  place: the model returns the value together with the location afterwards.
\<close>

fun pop_loop ::
  "dataklass list \<Rightarrow> ScopedLocation \<Rightarrow> ScopedLocationAttr option \<times> ScopedLocation" where
  "pop_loop [] l = (None, l)"
| "pop_loop (k # ks) l =
     (case loc_getattr l k of
        Some v \<Rightarrow> (Some v, loc_setattr l k None)
      | None \<Rightarrow> pop_loop ks l)"

definition pop :: "ScopedLocation \<Rightarrow> ScopedLocationAttr option \<times> ScopedLocation" where
  "pop l = pop_loop (rev dataclass_2_id_attr_keys) l"

text \<open>
  The prefix invariant of the data model: a coordinate is set only if every coordinate
  before it is set.
\<close>

fun no_gaps :: "'a option list \<Rightarrow> bool" where
  "no_gaps [] = True"
| "no_gaps (None # xs) = list_all (\<lambda>x. x = None) xs"
| "no_gaps (Some x # xs) = no_gaps xs"

definition prefix_invariant :: "ScopedLocation \<Rightarrow> bool" where
  "prefix_invariant l = no_gaps (map (loc_getattr l) dataclass_2_id_attr_keys)"

section \<open>Metadata nodes (neuraxle/metaopt/data/vanilla.py)\<close>

text \<open>
  Floating point scores are never computed with or compared here: a float is
  represented by its 64-bit pattern, read as a number.
  \<^verbatim>\<open>TrialStatus\<close> is imported by the source from \<^verbatim>\<open>neuraxle.base\<close>; its five
  members are those the specification lists.
\<close>

datatype py_float = Float64 nat

datatype TrialStatus = PLANNED | RUNNING | SUCCESS | FAILED | ABORTED

text \<open>
  A value held by the \<^verbatim>\<open>hyperparams\<close> field. Python does not enforce the annotation
  \<^verbatim>\<open>HyperparameterSamples\<close>: the field holds whatever the constructor is given.
\<close>

datatype py_value =
    PyAttr ScopedLocationAttr
  | HyperparameterSamples "(string \<times> ScopedLocationAttr) list"

text \<open>The fields of \<^verbatim>\<open>BaseTrialDataclassMixin\<close>, in their declaration order.\<close>

record BaseTrialDataclassMixin =
  hyperparams :: py_value
  status :: TrialStatus
  created_time :: nat
  start_time :: nat
  end_time :: "nat option"
  log :: string

text \<open>
  The own fields of each dataclass (everything but the sublocation attribute). The
  constructor tells the class of the object.
  \<^item> \<open>ProjectFields project_name\<close>
  \<^item> \<open>ClientFields client_name main_metric_name\<close>
  \<^item> \<open>RoundFields round_number\<close>
  \<^item> \<open>TrialFields mixin_fields trial_number\<close>
  \<^item> \<open>TrialSplitFields mixin_fields split_number\<close>
  \<^item> \<open>MetricResultsFields metric_name train_values higher_score_is_better\<close>
\<close>

datatype own_fields =
    RootFields
  | ProjectFields "ScopedLocationAttr option"
  | ClientFields "ScopedLocationAttr option" "string option"
  | RoundFields "ScopedLocationAttr option"
  | TrialFields BaseTrialDataclassMixin "ScopedLocationAttr option"
  | TrialSplitFields BaseTrialDataclassMixin "ScopedLocationAttr option"
  | MetricResultsFields "ScopedLocationAttr option" "py_float list" bool

text \<open>
  An element of a sublocation container: the placeholder \<^verbatim>\<open>None\<close>, a dataclass
  object, or a float (the values of a \<^verbatim>\<open>MetricResultsDataclass\<close>). A sublocation is
  an \<^verbatim>\<open>OrderedDict\<close> (an association list in insertion order) or a Python list.
\<close>

datatype 'n py_item = Placeholder | Dc 'n | FloatValue py_float

datatype 'n sublocation =
    OrderedDict "(ScopedLocationAttr option \<times> 'n py_item) list"
  | PyList "'n py_item list"

datatype node = Node own_fields "node sublocation"

fun own :: "node \<Rightarrow> own_fields" where
  "own (Node f s) = f"

fun get_sublocation :: "node \<Rightarrow> node sublocation" where
  "get_sublocation (Node f s) = s"

fun klass_of_fields :: "own_fields \<Rightarrow> dataklass" where
  "klass_of_fields RootFields = RootDataclass"
| "klass_of_fields (ProjectFields i) = ProjectDataclass"
| "klass_of_fields (ClientFields i m) = ClientDataclass"
| "klass_of_fields (RoundFields i) = RoundDataclass"
| "klass_of_fields (TrialFields t i) = TrialDataclass"
| "klass_of_fields (TrialSplitFields t i) = TrialSplitDataclass"
| "klass_of_fields (MetricResultsFields i tv h) = MetricResultsDataclass"

definition klass :: "node \<Rightarrow> dataklass" where
  "klass n = klass_of_fields (own n)"

text \<open>\<^verbatim>\<open>get_id\<close>: the id attribute of the class; \<^verbatim>\<open>None\<close> for the root.\<close>

fun id_of_fields :: "own_fields \<Rightarrow> ScopedLocationAttr option" where
  "id_of_fields RootFields = None"
| "id_of_fields (ProjectFields i) = i"
| "id_of_fields (ClientFields i m) = i"
| "id_of_fields (RoundFields i) = i"
| "id_of_fields (TrialFields t i) = i"
| "id_of_fields (TrialSplitFields t i) = i"
| "id_of_fields (MetricResultsFields i tv h) = i"

definition get_id :: "node \<Rightarrow> ScopedLocationAttr option" where
  "get_id n = id_of_fields (own n)"

text \<open>The table \<^verbatim>\<open>dataclass_2_subdataclass\<close> and the keys of \<^verbatim>\<open>dataclass_2_subloc_attr\<close>.\<close>

fun dataclass_2_subdataclass :: "dataklass \<Rightarrow> dataklass option" where
  "dataclass_2_subdataclass RootDataclass = Some ProjectDataclass"
| "dataclass_2_subdataclass ProjectDataclass = Some ClientDataclass"
| "dataclass_2_subdataclass ClientDataclass = Some RoundDataclass"
| "dataclass_2_subdataclass RoundDataclass = Some TrialDataclass"
| "dataclass_2_subdataclass TrialDataclass = Some TrialSplitDataclass"
| "dataclass_2_subdataclass TrialSplitDataclass = Some MetricResultsDataclass"
| "dataclass_2_subdataclass MetricResultsDataclass = None"

definition dataclass_2_subloc_attr_keys :: "dataklass list" where
  "dataclass_2_subloc_attr_keys =
     [RootDataclass, ProjectDataclass, ClientDataclass, RoundDataclass, TrialDataclass,
      TrialSplitDataclass, MetricResultsDataclass]"

text \<open>
  Which mixin a class inherits: \<^verbatim>\<open>DataclassHasOrderedDictMixin\<close> (root, project,
  trial split) or \<^verbatim>\<open>DataclassHasListMixin\<close> (client, round, trial, metric results).
\<close>

datatype mixin = DataclassHasOrderedDictMixin | DataclassHasListMixin

fun mixin_of :: "dataklass \<Rightarrow> mixin" where
  "mixin_of RootDataclass = DataclassHasOrderedDictMixin"
| "mixin_of ProjectDataclass = DataclassHasOrderedDictMixin"
| "mixin_of TrialSplitDataclass = DataclassHasOrderedDictMixin"
| "mixin_of ClientDataclass = DataclassHasListMixin"
| "mixin_of RoundDataclass = DataclassHasListMixin"
| "mixin_of TrialDataclass = DataclassHasListMixin"
| "mixin_of MetricResultsDataclass = DataclassHasListMixin"

subsection \<open>Python containers\<close>

text \<open>
  \<^verbatim>\<open>OrderedDict.__setitem__\<close>: an existing key keeps its position and gets the new
  value, a new key is appended.
\<close>

fun od_set :: "('k \<times> 'v) list \<Rightarrow> 'k \<Rightarrow> 'v \<Rightarrow> ('k \<times> 'v) list" where
  "od_set [] k v = [(k, v)]"
| "od_set ((k', v') # kvs) k v =
     (if k' = k then (k, v) # kvs else (k', v') # od_set kvs k v)"

text \<open>
  A Python list index: a negative index counts from the end, an index out of range
  raises \<^verbatim>\<open>IndexError\<close>.
\<close>

definition py_index :: "nat \<Rightarrow> int \<Rightarrow> py_error + nat" where
  "py_index n i =
     (if 0 \<le> i \<and> i < int n then Inr (nat i)
      else if i < 0 \<and> - int n \<le> i then Inr (nat (int n + i))
      else Inl IndexError)"

text \<open>\<^verbatim>\<open>len(container)\<close>, \<^verbatim>\<open>container[key]\<close>, \<^verbatim>\<open>container[key] = item\<close> and
  \<^verbatim>\<open>container.append(item)\<close> on either kind of container.\<close>

fun container_len :: "'n sublocation \<Rightarrow> nat" where
  "container_len (OrderedDict kvs) = length kvs"
| "container_len (PyList xs) = length xs"

fun container_getitem ::
  "'n sublocation \<Rightarrow> ScopedLocationAttr option \<Rightarrow> py_error + 'n py_item" where
  "container_getitem (OrderedDict kvs) k =
     (case map_of kvs k of None \<Rightarrow> Inl KeyError | Some v \<Rightarrow> Inr v)"
| "container_getitem (PyList xs) (Some (AttrInt i)) =
     (case py_index (length xs) i of Inl e \<Rightarrow> Inl e | Inr j \<Rightarrow> Inr (xs ! j))"
| "container_getitem (PyList xs) k = Inl TypeError"

fun container_setitem ::
  "'n sublocation \<Rightarrow> ScopedLocationAttr option \<Rightarrow> 'n py_item \<Rightarrow> py_error + 'n sublocation" where
  "container_setitem (OrderedDict kvs) k v = Inr (OrderedDict (od_set kvs k v))"
| "container_setitem (PyList xs) (Some (AttrInt i)) v =
     (case py_index (length xs) i of Inl e \<Rightarrow> Inl e | Inr j \<Rightarrow> Inr (PyList (xs[j := v])))"
| "container_setitem (PyList xs) k v = Inl TypeError"

fun container_append :: "'n sublocation \<Rightarrow> 'n py_item \<Rightarrow> py_error + 'n sublocation" where
  "container_append (PyList xs) v = Inr (PyList (xs @ [v]))"
| "container_append (OrderedDict kvs) v = Inl AttributeError"

subsection \<open>The invariants of the two mixins\<close>

fun is_str_key :: "ScopedLocationAttr option \<Rightarrow> bool" where
  "is_str_key (Some (AttrStr s)) = True"
| "is_str_key k = False"

text \<open>
  \<^verbatim>\<open>isinstance(s, subdataklass)\<close> for the values that are not \<^verbatim>\<open>None\<close>; no
  dataclass of the tree is a subclass of another one.
\<close>

fun value_ok :: "dataklass \<Rightarrow> node py_item \<Rightarrow> bool" where
  "value_ok c Placeholder = True"
| "value_ok c (Dc n) = (klass n = c)"
| "value_ok c (FloatValue x) = False"

text \<open>
  \<^verbatim>\<open>_invariant\<close>: \<open>None\<close> when the check passes, the raised error otherwise. The
  dictionary mixin checks the container, then the keys, then the values; the list mixin
  checks the container only. The three classes with the dictionary mixin all have a
  subdataclass.
\<close>

fun invariant_error :: "dataklass \<Rightarrow> node sublocation \<Rightarrow> py_error option" where
  "invariant_error c (OrderedDict kvs) =
     (case mixin_of c of
        DataclassHasListMixin \<Rightarrow> Some ValueError
      | DataclassHasOrderedDictMixin \<Rightarrow>
          (if \<not> list_all is_str_key (map fst kvs) then Some ValueError
           else (case dataclass_2_subdataclass c of
                   None \<Rightarrow> None
                 | Some sc \<Rightarrow>
                     if \<not> list_all (value_ok sc) (map snd kvs) then Some ValueError
                     else None)))"
| "invariant_error c (PyList xs) =
     (case mixin_of c of
        DataclassHasListMixin \<Rightarrow> None
      | DataclassHasOrderedDictMixin \<Rightarrow> Some ValueError)"


subsection \<open>store\<close>

text \<open>
  \<^verbatim>\<open>store\<close> mutates the object and may then raise: the model returns the object
  after the call together with the returned id (\<open>Inr\<close>) or the raised error (\<open>Inl\<close>).

  \<^verbatim>\<open>DataclassHasOrderedDictMixin.store\<close> writes the entry first and checks the
  invariant afterwards.
\<close>

definition store_odict ::
  "node \<Rightarrow> node \<Rightarrow> node \<times> (py_error + ScopedLocationAttr option)" where
  "store_odict self dc =
     (case container_setitem (get_sublocation self) (get_id dc) (Dc dc) of
        Inl e \<Rightarrow> (self, Inl e)
      | Inr s' \<Rightarrow>
          (case invariant_error (klass self) s' of
             Some e \<Rightarrow> (Node (own self) s', Inl e)
           | None \<Rightarrow> (Node (own self) s', Inr (get_id dc))))"

text \<open>
  \<^verbatim>\<open>DataclassHasListMixin.store\<close>: \<^verbatim>\<open>_id == self.get_next_i()\<close> appends,
  \<^verbatim>\<open>_id < self.get_next_i()\<close> assigns at the index (the comparison of a string or of
  \<^verbatim>\<open>None\<close> with an integer raises \<^verbatim>\<open>TypeError\<close>), anything else raises
  \<^verbatim>\<open>ValueError\<close>; the invariant is checked afterwards.
\<close>

definition store_list ::
  "node \<Rightarrow> node \<Rightarrow> node \<times> (py_error + ScopedLocationAttr option)" where
  "store_list self dc =
     (let next_i = int (container_len (get_sublocation self)) in
      case get_id dc of
        Some (AttrInt i) \<Rightarrow>
          (case (if i = next_i then container_append (get_sublocation self) (Dc dc)
                 else if i < next_i
                   then container_setitem (get_sublocation self) (get_id dc) (Dc dc)
                 else Inl ValueError) of
             Inl e \<Rightarrow> (self, Inl e)
           | Inr s' \<Rightarrow>
               (case invariant_error (klass self) s' of
                  Some e \<Rightarrow> (Node (own self) s', Inl e)
                | None \<Rightarrow> (Node (own self) s', Inr (get_id dc))))
      | _ \<Rightarrow> (self, Inl TypeError))"

definition store :: "node \<Rightarrow> node \<Rightarrow> node \<times> (py_error + ScopedLocationAttr option)" where
  "store self dc =
     (case mixin_of (klass self) of
        DataclassHasOrderedDictMixin \<Rightarrow> store_odict self dc
      | DataclassHasListMixin \<Rightarrow> store_list self dc)"

subsection \<open>Defaults and construction\<close>

definition DEFAULT_PROJECT :: ScopedLocationAttr where
  "DEFAULT_PROJECT = AttrStr ''default_project''"

definition DEFAULT_CLIENT :: ScopedLocationAttr where
  "DEFAULT_CLIENT = AttrStr ''default_client''"

text \<open>
  \<^verbatim>\<open>ClientDataclass()\<close>, \<^verbatim>\<open>ProjectDataclass()\<close> and \<^verbatim>\<open>RootDataclass()\<close> with
  their field defaults: a project is born with the default client, the root with the
  default project.
\<close>

definition ClientDataclass_default :: node where
  "ClientDataclass_default = Node (ClientFields (Some DEFAULT_CLIENT) None) (PyList [])"

definition ProjectDataclass_default :: node where
  "ProjectDataclass_default =
     Node (ProjectFields (Some DEFAULT_PROJECT))
       (OrderedDict [(Some DEFAULT_CLIENT, Dc ClientDataclass_default)])"

definition RootDataclass_default :: node where
  "RootDataclass_default =
     Node RootFields (OrderedDict [(Some DEFAULT_PROJECT, Dc ProjectDataclass_default)])"

text \<open>
  \<^verbatim>\<open>dataklass(x)\<close>: the generated constructor called with one positional argument,
  which goes to the first field of the class. For a project, client, round and metric
  result the first field is the id. For a trial and a trial split the fields of
  \<^verbatim>\<open>BaseTrialDataclassMixin\<close> come first (the base classes' fields precede the
  class's own), so the argument is taken as \<^verbatim>\<open>hyperparams\<close> and the number keeps
  its default \<^verbatim>\<open>0\<close>. The two \<^verbatim>\<open>datetime.now()\<close> defaults are the parameters
  \<open>t1\<close> and \<open>t2\<close>. The root's only field is its sublocation, and a scalar there
  fails the invariant in \<^verbatim>\<open>__post_init__\<close>.
\<close>

fun construct_positional ::
  "nat \<Rightarrow> nat \<Rightarrow> dataklass \<Rightarrow> ScopedLocationAttr \<Rightarrow> py_error + node" where
  "construct_positional t1 t2 ProjectDataclass x =
     Inr (Node (ProjectFields (Some x))
       (OrderedDict [(Some DEFAULT_CLIENT, Dc ClientDataclass_default)]))"
| "construct_positional t1 t2 ClientDataclass x =
     Inr (Node (ClientFields (Some x) None) (PyList []))"
| "construct_positional t1 t2 RoundDataclass x =
     Inr (Node (RoundFields (Some x)) (PyList []))"
| "construct_positional t1 t2 TrialDataclass x =
     Inr (Node (TrialFields
            \<lparr>hyperparams = PyAttr x, status = PLANNED, created_time = t1, start_time = t2,
             end_time = None, log = []\<rparr> (Some (AttrInt 0)))
          (PyList []))"
| "construct_positional t1 t2 TrialSplitDataclass x =
     Inr (Node (TrialSplitFields
            \<lparr>hyperparams = PyAttr x, status = PLANNED, created_time = t1, start_time = t2,
             end_time = None, log = []\<rparr> (Some (AttrInt 0)))
          (OrderedDict []))"
| "construct_positional t1 t2 MetricResultsDataclass x =
     Inr (Node (MetricResultsFields (Some x) [] True) (PyList []))"
| "construct_positional t1 t2 RootDataclass x = Inl ValueError"

text \<open>
  \<^verbatim>\<open>new_dataclass_from_id\<close>: the class at position \<^verbatim>\<open>len(_list) - 1\<close> of
  \<^verbatim>\<open>dataclass_2_id_attr\<close>, constructed with \<^verbatim>\<open>_list[-1]\<close>. On the empty location
  \<^verbatim>\<open>_list[-1]\<close> raises \<^verbatim>\<open>IndexError\<close>.
\<close>

definition new_dataclass_from_id :: "nat \<Rightarrow> nat \<Rightarrow> ScopedLocation \<Rightarrow> py_error + node" where
  "new_dataclass_from_id t1 t2 l =
     (let xs = as_list l in
      if xs = [] then Inl IndexError
      else construct_positional t1 t2 (dataclass_2_id_attr_keys ! (length xs - 1)) (last xs))"

subsection \<open>Walking the tree\<close>

text \<open>
  \<^verbatim>\<open>get_sublocation_keys\<close>: the dictionary's keys, or \<^verbatim>\<open>range(len(self))\<close> for the
  list mixin. A list has no \<^verbatim>\<open>keys\<close> method.
\<close>

definition get_sublocation_keys :: "node \<Rightarrow> py_error + ScopedLocationAttr option list" where
  "get_sublocation_keys n =
     (case mixin_of (klass n) of
        DataclassHasListMixin \<Rightarrow>
          Inr (map (\<lambda>i. Some (AttrInt (int i))) [0..<container_len (get_sublocation n)])
      | DataclassHasOrderedDictMixin \<Rightarrow>
          (case get_sublocation n of
             OrderedDict kvs \<Rightarrow> Inr (map fst kvs)
           | PyList xs \<Rightarrow> Inl AttributeError))"

text \<open>
  \<^verbatim>\<open>shallow\<close>: a copy whose child slots are placeholders. The dictionary mixin reads
  \<^verbatim>\<open>keys()\<close> (which a list does not have); both mixins assign the new sublocation
  through \<^verbatim>\<open>set_sublocation\<close>, which checks the invariant. The object itself is not
  changed.
\<close>

definition shallow :: "node \<Rightarrow> py_error + node" where
  "shallow n =
     (case mixin_of (klass n) of
        DataclassHasListMixin \<Rightarrow>
          Inr (Node (own n) (PyList (replicate (container_len (get_sublocation n)) Placeholder)))
      | DataclassHasOrderedDictMixin \<Rightarrow>
          (case get_sublocation n of
             PyList xs \<Rightarrow> Inl AttributeError
           | OrderedDict kvs \<Rightarrow>
               (case invariant_error (klass n) (OrderedDict (map (\<lambda>kv. (fst kv, Placeholder)) kvs)) of
                  Some e \<Rightarrow> Inl e
                | None \<Rightarrow> Inr (Node (own n) (OrderedDict (map (\<lambda>kv. (fst kv, Placeholder)) kvs))))))"

text \<open>The elements of a container, and the size bound that makes the walk terminate.\<close>

fun container_items :: "'n sublocation \<Rightarrow> 'n py_item list" where
  "container_items (OrderedDict kvs) = map snd kvs"
| "container_items (PyList xs) = xs"

lemma container_getitem_items:
  "container_getitem s k = Inr it \<Longrightarrow> it \<in> set (container_items s)"
proof (cases s)
  case (OrderedDict kvs)
  assume "container_getitem s k = Inr it"
  then have "map_of kvs k = Some it"
    using OrderedDict by (auto split: option.splits)
  then have "(k, it) \<in> set kvs"
    by (rule map_of_SomeD)
  then show ?thesis
    using OrderedDict by force
next
  case (PyList xs)
  assume g: "container_getitem s k = Inr it"
  then obtain i where k: "k = Some (AttrInt i)"
    using PyList by (cases k rule: is_str_key.cases) auto
  from g obtain j where "py_index (length xs) i = Inr j" and it: "it = xs ! j"
    using PyList k by (auto split: sum.splits)
  then have "j < length xs"
    by (auto simp: py_index_def split: if_splits)
  then show ?thesis
    using PyList it by simp
qed

lemma container_item_size:
  "Dc c \<in> set (container_items s) \<Longrightarrow> size c < size (Node f s)"
proof (cases s)
  case (OrderedDict kvs)
  assume "Dc c \<in> set (container_items s)"
  then obtain k where "(k, Dc c) \<in> set kvs"
    using OrderedDict by auto
  then have "size_prod (\<lambda>_. 0) (size_py_item size) (k, Dc c)
      \<le> size_list (size_prod (\<lambda>_. 0) (size_py_item size)) kvs"
    by (simp add: size_list_estimation')
  then show ?thesis
    using OrderedDict by simp
next
  case (PyList xs)
  assume "Dc c \<in> set (container_items s)"
  then have "Dc c \<in> set xs"
    using PyList by simp
  then have "size_py_item size (Dc c) \<le> size_list (size_py_item size) xs"
    by (simp add: size_list_estimation')
  then show ?thesis
    using PyList by simp
qed

text \<open>
  \<^verbatim>\<open>BaseDataclass.__getitem__\<close>: descend while the location has a coordinate for the
  subdataclass of the current node. A coordinate that is no key of the node raises
  \<^verbatim>\<open>KeyError\<close>; the message of that error is built with \<^verbatim>\<open>self.shallow()\<close>, so
  an error of \<^verbatim>\<open>shallow\<close> is raised in its place. Subscripting a placeholder (or a
  float) raises \<^verbatim>\<open>TypeError\<close>.
\<close>

function getitem :: "node \<Rightarrow> ScopedLocation \<Rightarrow> py_error + node" where
  "getitem self loc =
     (case dataclass_2_subdataclass (klass self) of
        None \<Rightarrow> Inr self
      | Some sc \<Rightarrow>
          (case loc_getattr loc sc of
             None \<Rightarrow> Inr self
           | Some a \<Rightarrow>
               (case get_sublocation_keys self of
                  Inl e \<Rightarrow> Inl e
                | Inr ks \<Rightarrow>
                    if Some a \<notin> set ks
                    then (case shallow self of Inl e \<Rightarrow> Inl e | Inr sh \<Rightarrow> Inl KeyError)
                    else (case container_getitem (get_sublocation self) (Some a) of
                            Inl e \<Rightarrow> Inl e
                          | Inr Placeholder \<Rightarrow> Inl TypeError
                          | Inr (FloatValue x) \<Rightarrow> Inl TypeError
                          | Inr (Dc child) \<Rightarrow> getitem child loc))))"
  by pat_completeness auto
termination
proof (relation "measure (\<lambda>(n, l). size n)")
  show "wf (measure (\<lambda>(n, l). size n))"
    by simp
next
  fix self :: node and loc sc a ks it child
  assume "container_getitem (get_sublocation self) (Some a) = Inr it" and "it = Dc child"
  then have "Dc child \<in> set (container_items (get_sublocation self))"
    using container_getitem_items by blast
  then have "size child < size (Node (own self) (get_sublocation self))"
    by (rule container_item_size)
  then show "((child, loc), (self, loc)) \<in> measure (\<lambda>(n, l). size n)"
    by (cases self) simp
qed

declare getitem.simps [simp del]

subsection \<open>Slicing a location by type, and with_dc\<close>

text \<open>
  The position of a class among the keys of \<^verbatim>\<open>dataclass_2_id_attr\<close> and of
  \<^verbatim>\<open>dataclass_2_subloc_attr\<close> (\<^verbatim>\<open>list(...keys()).index(cls)\<close>). The root is no key
  of the former; the callers exclude it.
\<close>

fun id_attr_index :: "dataklass \<Rightarrow> nat" where
  "id_attr_index ProjectDataclass = 0"
| "id_attr_index ClientDataclass = 1"
| "id_attr_index RoundDataclass = 2"
| "id_attr_index TrialDataclass = 3"
| "id_attr_index TrialSplitDataclass = 4"
| "id_attr_index MetricResultsDataclass = 5"
| "id_attr_index RootDataclass = 0"

fun subloc_attr_index :: "dataklass \<Rightarrow> nat" where
  "subloc_attr_index RootDataclass = 0"
| "subloc_attr_index ProjectDataclass = 1"
| "subloc_attr_index ClientDataclass = 2"
| "subloc_attr_index RoundDataclass = 3"
| "subloc_attr_index TrialDataclass = 4"
| "subloc_attr_index TrialSplitDataclass = 5"
| "subloc_attr_index MetricResultsDataclass = 6"




subsection \<open>The in-memory repository\<close>

text \<open>
  The state of a \<^verbatim>\<open>VanillaHyperparamsRepository\<close> is its root object (the cache
  folder only names the log files). \<^verbatim>\<open>copy.deepcopy\<close> is the identity on values.
\<close>

definition VanillaHyperparamsRepository_init :: node where
  "VanillaHyperparamsRepository_init = RootDataclass_default"

text \<open>
  \<^verbatim>\<open>load\<close>: a \<^verbatim>\<open>KeyError\<close> of the lookup (or of \<^verbatim>\<open>shallow\<close>) is answered with
  \<^verbatim>\<open>new_dataclass_from_id\<close>; any other error propagates.
\<close>

definition load :: "nat \<Rightarrow> nat \<Rightarrow> node \<Rightarrow> ScopedLocation \<Rightarrow> bool \<Rightarrow> py_error + node" where
  "load t1 t2 root scope deep =
     (case (case getitem root scope of
              Inl e \<Rightarrow> Inl e
            | Inr ret \<Rightarrow> if \<not> deep then shallow ret else Inr ret) of
        Inl KeyError \<Rightarrow> new_dataclass_from_id t1 t2 scope
      | Inl e \<Rightarrow> Inl e
      | Inr ret \<Rightarrow> Inr ret)"

text \<open>
  \<^verbatim>\<open>self.root[scope].store(_dataclass)\<close> mutates an object inside the tree. The model
  walks as \<^verbatim>\<open>__getitem__\<close> does (raising what it raises), applies \<open>store\<close> at the
  object found and puts each changed object back under the key it was read from. The result is the tree after the
  statement and the error raised, if any.
\<close>

definition store_result :: "node \<Rightarrow> node \<Rightarrow> node \<times> py_error option" where
  "store_result self dc =
     (case store self dc of
        (self', Inl e) \<Rightarrow> (self', Some e)
      | (self', Inr i) \<Rightarrow> (self', None))"

definition container_put ::
  "'n sublocation \<Rightarrow> ScopedLocationAttr option \<Rightarrow> 'n py_item \<Rightarrow> 'n sublocation" where
  "container_put s k v = (case container_setitem s k v of Inl e \<Rightarrow> s | Inr s' \<Rightarrow> s')"

function store_at :: "node \<Rightarrow> ScopedLocation \<Rightarrow> node \<Rightarrow> node \<times> py_error option" where
  "store_at self loc dc =
     (case dataclass_2_subdataclass (klass self) of
        None \<Rightarrow> store_result self dc
      | Some sc \<Rightarrow>
          (case loc_getattr loc sc of
             None \<Rightarrow> store_result self dc
           | Some a \<Rightarrow>
               (case get_sublocation_keys self of
                  Inl e \<Rightarrow> (self, Some e)
                | Inr ks \<Rightarrow>
                    if Some a \<notin> set ks
                    then (case shallow self of
                            Inl e \<Rightarrow> (self, Some e)
                          | Inr sh \<Rightarrow> (self, Some KeyError))
                    else (case container_getitem (get_sublocation self) (Some a) of
                            Inl e \<Rightarrow> (self, Some e)
                          | Inr Placeholder \<Rightarrow> (self, Some TypeError)
                          | Inr (FloatValue x) \<Rightarrow> (self, Some TypeError)
                          | Inr (Dc child) \<Rightarrow>
                              (case store_at child loc dc of
                                 (child', r) \<Rightarrow>
                                   (Node (own self)
                                      (container_put (get_sublocation self) (Some a) (Dc child')),
                                    r))))))"
  by pat_completeness auto
termination
proof (relation "measure (\<lambda>(n, l, d). size n)")
  show "wf (measure (\<lambda>(n, l, d). size n))"
    by simp
next
  fix self :: node and loc dc sc a ks it child
  assume "container_getitem (get_sublocation self) (Some a) = Inr it" and "it = Dc child"
  then have "Dc child \<in> set (container_items (get_sublocation self))"
    using container_getitem_items by blast
  then have "size child < size (Node (own self) (get_sublocation self))"
    by (rule container_item_size)
  then show "((child, loc, dc), (self, loc, dc)) \<in> measure (\<lambda>(n, l, d). size n)"
    by (cases self) simp
qed

declare store_at.simps [simp del]


subsection \<open>Well-typed trees and descendant keys\<close>



text \<open>
  The keys of a container with their elements (a list is keyed by its indices), and the
  key paths of all descendants of an object.
\<close>

fun container_entries ::
  "'n sublocation \<Rightarrow> (ScopedLocationAttr option \<times> 'n py_item) list" where
  "container_entries (OrderedDict kvs) = kvs"
| "container_entries (PyList xs) = zip (map (\<lambda>i. Some (AttrInt (int i))) [0..<length xs]) xs"

lemma container_entries_items:
  "(k, it) \<in> set (container_entries s) \<Longrightarrow> it \<in> set (container_items s)"
  by (cases s) (auto simp: in_set_zip intro: rev_image_eqI)

function descendant_keys :: "node \<Rightarrow> ScopedLocationAttr option list list" where
  "descendant_keys (Node f s) =
     concat (map (\<lambda>e. [fst e] # (case snd e of
                                    Dc c \<Rightarrow> map ((#) (fst e)) (descendant_keys c)
                                  | Placeholder \<Rightarrow> []
                                  | FloatValue x \<Rightarrow> []))
              (container_entries s))"
  by pat_completeness auto
termination
proof (relation "measure size")
  show "wf (measure size)"
    by simp
next
  fix f :: own_fields and s :: "node sublocation" and e c
  assume "e \<in> set (container_entries s)" and "snd e = Dc c"
  then have "(fst e, Dc c) \<in> set (container_entries s)"
    by (metis prod.collapse)
  then have "Dc c \<in> set (container_items s)"
    by (rule container_entries_items)
  then have "size c < size (Node f s)"
    by (rule container_item_size)
  then show "(c, Node f s) \<in> measure size"
    by simp
qed

text \<open>
  A tree that is stored in full: every object satisfies the invariant of its mixin, and
  every element of an object that has a subdataclass is an object of that subdataclass
  (no placeholder), recursively. An address has a record in such a tree when the key
  path of its scope is the empty path or one of the descendant key paths of the root.
\<close>

function well_formed :: "node \<Rightarrow> bool" where
  "well_formed (Node f s) =
     (invariant_error (klass_of_fields f) s = None
      \<and> (case dataclass_2_subdataclass (klass_of_fields f) of
            None \<Rightarrow> True
          | Some sc \<Rightarrow>
              list_all
                (\<lambda>it. case it of
                         Dc c \<Rightarrow> klass c = sc \<and> well_formed c
                       | Placeholder \<Rightarrow> False
                       | FloatValue x \<Rightarrow> False)
                (container_items s)))"
  by pat_completeness auto
termination
proof (relation "measure size")
  show "wf (measure size)"
    by simp
next
  fix f :: own_fields and s :: "node sublocation" and sc it c
  assume "it \<in> set (container_items s)" and "it = Dc c"
  then have "size c < size (Node f s)"
    using container_item_size by blast
  then show "(c, Node f s) \<in> measure size"
    by simp
qed

definition key_path :: "ScopedLocation \<Rightarrow> ScopedLocationAttr option list" where
  "key_path s = map Some (as_list s)"



section \<open>The on-disk repository (neuraxle/metaopt/data/json_repo.py)\<close>

subsection \<open>The file system under the cache folder\<close>

text \<open>
  The cache folder is the root of a tree of directories and files; a path is the list of
  the names below the cache folder. Each coordinate of a scope is one path component
  (names are taken to hold no path separator).
\<close>

datatype fsnode = File string | Dir "(string \<times> fsnode) list"

fun fs_lookup :: "fsnode \<Rightarrow> string list \<Rightarrow> fsnode option" where
  "fs_lookup n [] = Some n"
| "fs_lookup (File c) (x # p) = None"
| "fs_lookup (Dir es) (x # p) =
     (case map_of es x of None \<Rightarrow> None | Some m \<Rightarrow> fs_lookup m p)"

text \<open>\<^verbatim>\<open>os.path.exists\<close>, \<^verbatim>\<open>os.listdir\<close> and reading a file.\<close>

definition fs_exists :: "fsnode \<Rightarrow> string list \<Rightarrow> bool" where
  "fs_exists fs p = (fs_lookup fs p \<noteq> None)"

definition fs_listdir :: "fsnode \<Rightarrow> string list \<Rightarrow> py_error + string list" where
  "fs_listdir fs p =
     (case fs_lookup fs p of Some (Dir es) \<Rightarrow> Inr (map fst es) | _ \<Rightarrow> Inl OSError)"

definition fs_read :: "fsnode \<Rightarrow> string list \<Rightarrow> py_error + string" where
  "fs_read fs p = (case fs_lookup fs p of Some (File c) \<Rightarrow> Inr c | _ \<Rightarrow> Inl OSError)"



subsection \<open>Paths of a scope\<close>

text \<open>\<^verbatim>\<open>str(i)\<close> of a coordinate: a string is itself, an integer its decimal digits.\<close>

definition digit_char :: "nat \<Rightarrow> char" where
  "digit_char d = char_of (48 + d)"

fun digits :: "nat \<Rightarrow> string" where
  "digits n = (if n < 10 then [digit_char n] else digits (n div 10) @ [digit_char (n mod 10)])"

declare digits.simps [simp del]

definition str_of_int :: "int \<Rightarrow> string" where
  "str_of_int i = (if i < 0 then CHR ''-'' # digits (nat (- i)) else digits (nat i))"

fun attr_str :: "ScopedLocationAttr \<Rightarrow> string" where
  "attr_str (AttrStr s) = s"
| "attr_str (AttrInt i) = str_of_int i"

definition ON_DISK_DELIM :: string where
  "ON_DISK_DELIM = ''_''"

definition get_folder_at_scope :: "ScopedLocation \<Rightarrow> string list" where
  "get_folder_at_scope scope = map (\<lambda>a. ON_DISK_DELIM @ attr_str a) (as_list scope)"

definition metadata_file :: "ScopedLocation \<Rightarrow> string list" where
  "metadata_file scope = get_folder_at_scope scope @ [''metadata.json'']"

subsection \<open>Loading\<close>

text \<open>
  \<^verbatim>\<open>_load_json_file\<close>. The parser \<^verbatim>\<open>json.loads\<close> of the standard library is the
  parameter \<open>json_loads\<close> (\<open>None\<close> when it raises \<^verbatim>\<open>JSONDecodeError\<close>). The
  \<^verbatim>\<open>ValueError\<close> raised for a file that does not parse carries, in its message, the
  content read, the path of the file and the listing of the file's directory: the error
  value \<open>InvalidJSONFile content path listing\<close>.
\<close>

definition load_json_file ::
  "(string \<Rightarrow> 'j option) \<Rightarrow> fsnode \<Rightarrow> string list \<Rightarrow> py_error + 'j" where
  "load_json_file json_loads fs load_file =
     (if \<not> fs_exists fs load_file then Inl KeyError
      else (case fs_read fs load_file of
              Inl e \<Rightarrow> Inl e
            | Inr content \<Rightarrow>
                (case json_loads content of
                   Some j \<Rightarrow> Inr j
                 | None \<Rightarrow>
                     (case fs_listdir fs (butlast load_file) of
                        Inl e \<Rightarrow> Inl e
                      | Inr surrounding_files \<Rightarrow>
                          Inl (InvalidJSONFile content load_file surrounding_files)))))"

text \<open>
  \<^verbatim>\<open>from_json(json)\<close> of vanilla.py evaluates
  \<^verbatim>\<open>json.loads(json, object_pairs_hook=..., object_hook=...)\<close>. The parameter is named
  \<^verbatim>\<open>json\<close> and shadows the module: \<^verbatim>\<open>json.loads\<close> is an attribute lookup on the
  argument, which is a parsed JSON value (a string, number, list, dictionary, boolean or
  \<^verbatim>\<open>None\<close>) and has no such attribute. The call raises \<^verbatim>\<open>AttributeError\<close> on
  every argument.
\<close>

definition from_json :: "'j \<Rightarrow> py_error + node" where
  "from_json j = Inl AttributeError"

text \<open>
  \<^verbatim>\<open>_load_dc\<close>, up to the call of \<^verbatim>\<open>from_json\<close>. With no dataclass given,
  \<^verbatim>\<open>_patch_scope_for_dataclass\<close> returns a copy of the scope. The statements after
  \<^verbatim>\<open>from_json\<close> (reading the keys of the sublocation and, for a deep load, loading
  each child) run only when \<^verbatim>\<open>from_json\<close> returns; the continuation is the parameter
  \<open>rest\<close>.
\<close>

definition load_dc ::
  "(string \<Rightarrow> 'j option) \<Rightarrow> (node \<Rightarrow> py_error + node) \<Rightarrow> fsnode \<Rightarrow> ScopedLocation
     \<Rightarrow> py_error + node" where
  "load_dc json_loads rest fs scope =
     (case load_json_file json_loads fs (metadata_file scope) of
        Inl e \<Rightarrow> Inl e
      | Inr j \<Rightarrow> (case from_json j of Inl e \<Rightarrow> Inl e | Inr dc \<Rightarrow> rest dc))"

text \<open>
  \<^verbatim>\<open>HyperparamsOnDiskRepository.load\<close>: a \<^verbatim>\<open>KeyError\<close> of \<^verbatim>\<open>_load_dc\<close> is
  answered with \<^verbatim>\<open>new_dataclass_from_id\<close>; every other error propagates.
\<close>

definition on_disk_load ::
  "(string \<Rightarrow> 'j option) \<Rightarrow> (node \<Rightarrow> py_error + node) \<Rightarrow> nat \<Rightarrow> nat \<Rightarrow> fsnode
     \<Rightarrow> ScopedLocation \<Rightarrow> py_error + node" where
  "on_disk_load json_loads rest t1 t2 fs scope =
     (case load_dc json_loads rest fs scope of
        Inl KeyError \<Rightarrow> new_dataclass_from_id t1 t2 scope
      | Inl e \<Rightarrow> Inl e
      | Inr loaded \<Rightarrow> Inr loaded)"

subsection \<open>The keys of a sublocation, read from the directory\<close>

text \<open>
  \<^verbatim>\<open>int(s)\<close> on a directory name: an optional sign and decimal digits, as
  \<^verbatim>\<open>str\<close> writes an integer; anything else raises \<^verbatim>\<open>ValueError\<close>. (Python also
  accepts surrounding blanks and underscores between digits, which \<^verbatim>\<open>str\<close> never
  writes.)
\<close>

definition is_digit :: "char \<Rightarrow> bool" where
  "is_digit c = (48 \<le> (of_char c :: nat) \<and> (of_char c :: nat) \<le> 57)"

definition digits_value :: "string \<Rightarrow> nat" where
  "digits_value ds = foldl (\<lambda>acc c. 10 * acc + ((of_char c :: nat) - 48)) 0 ds"

definition py_int :: "string \<Rightarrow> py_error + int" where
  "py_int s =
     (let (neg, ds) = (case s of
                          c # r \<Rightarrow> if c = CHR ''-'' then (True, r)
                                   else if c = CHR ''+'' then (False, r) else (False, s)
                        | [] \<Rightarrow> (False, s)) in
      if ds = [] \<or> \<not> list_all is_digit ds then Inl ValueError
      else Inr (if neg then - int (digits_value ds) else int (digits_value ds)))"

fun py_int_all :: "string list \<Rightarrow> py_error + ScopedLocationAttr list" where
  "py_int_all [] = Inr []"
| "py_int_all (s # ss) =
     (case py_int s of
        Inl e \<Rightarrow> Inl e
      | Inr i \<Rightarrow> (case py_int_all ss of Inl e \<Rightarrow> Inl e | Inr is \<Rightarrow> Inr (AttrInt i # is)))"

text \<open>
  The list \<^verbatim>\<open>sublocs\<close> that \<^verbatim>\<open>_load_dc_sublocation_keys\<close> computes from the
  directory listing: the names that start with the delimiter, without it, sorted as
  strings by \<^verbatim>\<open>sorted\<close>; for a class with the list mixin each name is then converted
  with \<^verbatim>\<open>int\<close>.
\<close>

definition sublocs_of_listing ::
  "dataklass \<Rightarrow> string list \<Rightarrow> py_error + ScopedLocationAttr list" where
  "sublocs_of_listing c listing =
     (let sublocs = sort (map (drop (length ON_DISK_DELIM))
                           (filter (\<lambda>s. take (length ON_DISK_DELIM) s = ON_DISK_DELIM) listing)) in
      if mixin_of c = DataclassHasListMixin then py_int_all sublocs
      else Inr (map AttrStr sublocs))"

text \<open>
  \<^verbatim>\<open>_load_dc_sublocation_keys\<close>. The method \<^verbatim>\<open>set_sublocation_keys\<close> it calls last
  is not defined in vanilla.py and is the parameter \<open>set_sublocation_keys\<close>.
\<close>

definition load_dc_sublocation_keys ::
  "(node \<Rightarrow> ScopedLocationAttr list \<Rightarrow> py_error + node) \<Rightarrow> fsnode \<Rightarrow> node \<Rightarrow> ScopedLocation
     \<Rightarrow> py_error + node" where
  "load_dc_sublocation_keys set_sublocation_keys fs dc scope =
     (case fs_listdir fs (get_folder_at_scope scope) of
        Inl e \<Rightarrow> Inl e
      | Inr listing \<Rightarrow>
          (case sublocs_of_listing (klass dc) listing of
             Inl e \<Rightarrow> Inl e
           | Inr sublocs \<Rightarrow> set_sublocation_keys dc sublocs))"

subsection \<open>Saving\<close>



section \<open>Refitting the best trial (neuraxle/metaopt/auto_ml.py)\<close>

text \<open>
  The names bound at the top level of the module \<^verbatim>\<open>auto_ml.py\<close> (its imports and
  its definitions), and the built-in functions and constants of Python. A name that a
  function body reads and never assigns is looked up among these when the statement
  runs; a name that is in neither raises \<^verbatim>\<open>NameError\<close>.
\<close>

definition auto_ml_module_names :: "string list" where
  "auto_ml_module_names =
     [''copy'', ''gc'', ''json'', ''multiprocessing'', ''traceback'', ''attrgetter'',
      ''Iterator'', ''List'', ''Optional'', ''Tuple'', ''Union'', ''np'',
      ''BaseService'', ''BaseServiceT'', ''BaseStep'', ''ExecutionContext'',
      ''ExecutionPhase'', ''Flow'', ''ForceHandleMixin'', ''TrialStatus'',
      ''TruncableService'', ''_HasChildrenMixin'', ''DACT'', ''IDT'',
      ''HyperparameterSamples'', ''HyperparameterSpace'', ''warn_deprecated_arg'',
      ''warn_deprecated_class'', ''ARG_Y_EXPECTED'', ''ARG_Y_PREDICTD'', ''BaseCallback'',
      ''CallbackList'', ''ScoringCallback'', ''Client'', ''Project'', ''Root'', ''Round'',
      ''Trial'', ''TrialSplit'', ''DEFAULT_CLIENT'', ''DEFAULT_PROJECT'', ''AutoMLContext'',
      ''BaseDataclass'', ''ClientDataclass'', ''HyperparamsRepository'',
      ''InMemoryHyperparamsRepository'', ''MetricResultsDataclass'', ''ProjectDataclass'',
      ''RecursiveDict'', ''RootDataclass'', ''RoundDataclass'', ''ScopedLocation'',
      ''SubDataclassT'', ''TrialDataclass'', ''TrialSplitDataclass'',
      ''BaseCrossValidationWrapper'', ''BaseHyperparameterOptimizer'',
      ''BaseValidationSplitter'', ''RandomSearch'', ''Trainer'', ''BaseControllerLoop'',
      ''DefaultLoop'', ''AutoML'', ''_get_trial_split_description'', ''EasyAutoML'']"

definition python_builtin_names :: "string list" where
  "python_builtin_names =
     [''abs'', ''aiter'', ''all'', ''anext'', ''any'', ''ascii'', ''bin'', ''bool'',
      ''breakpoint'', ''bytearray'', ''bytes'', ''callable'', ''chr'', ''classmethod'',
      ''compile'', ''complex'', ''delattr'', ''dict'', ''dir'', ''divmod'', ''enumerate'',
      ''eval'', ''exec'', ''filter'', ''float'', ''format'', ''frozenset'', ''getattr'',
      ''globals'', ''hasattr'', ''hash'', ''help'', ''hex'', ''id'', ''input'', ''int'',
      ''isinstance'', ''issubclass'', ''iter'', ''len'', ''list'', ''locals'', ''map'',
      ''max'', ''memoryview'', ''min'', ''next'', ''object'', ''oct'', ''open'', ''ord'',
      ''pow'', ''print'', ''property'', ''range'', ''repr'', ''reversed'', ''round'',
      ''set'', ''setattr'', ''slice'', ''sorted'', ''staticmethod'', ''str'', ''sum'',
      ''super'', ''tuple'', ''type'', ''vars'', ''zip'', ''__import__'',
      ''True'', ''False'', ''None'', ''Ellipsis'', ''NotImplemented'', ''__debug__'']"

definition lookup_name :: "string list \<Rightarrow> string \<Rightarrow> py_error + unit" where
  "lookup_name params name =
     (if name \<in> set params \<or> name \<in> set auto_ml_module_names
         \<or> name \<in> set python_builtin_names
      then Inr () else Inl (NameError name))"

text \<open>
  \<^verbatim>\<open>Trainer.refit(self, pipeline, dact, trial_scope)\<close>. Its first statement reads
  the name \<^verbatim>\<open>context\<close>, which is neither a parameter nor assigned in the body. Were
  the name bound, the loop header would read \<^verbatim>\<open>self.epochs\<close>, an attribute that
  \<^verbatim>\<open>Trainer.__init__\<close> does not set (it sets \<^verbatim>\<open>n_epochs\<close>).
\<close>

definition Trainer_refit :: "'p \<Rightarrow> 'd \<Rightarrow> 't \<Rightarrow> py_error + 'p" where
  "Trainer_refit pipeline dact trial_scope =
     (case lookup_name [''self'', ''pipeline'', ''dact'', ''trial_scope''] ''context'' of
        Inl e \<Rightarrow> Inl e
      | Inr u \<Rightarrow> Inl AttributeError)"

text \<open>
  A \<^verbatim>\<open>with\<close> statement. \<open>enter\<close> is the result of \<^verbatim>\<open>__enter__\<close>; \<open>leave\<close> is
  \<^verbatim>\<open>__exit__\<close>, from the exception in flight (if any) to the exception that leaves
  the statement (if any): it may swallow the exception or raise another one. The body
  returns the value it bound, if it bound one, and the exception it raised, if any.
\<close>

definition with_statement ::
  "py_error + 's \<Rightarrow> (py_error option \<Rightarrow> py_error option)
     \<Rightarrow> ('s \<Rightarrow> 'v option \<times> py_error option) \<Rightarrow> 'v option \<times> py_error option" where
  "with_statement enter leave body =
     (case enter of
        Inl e \<Rightarrow> (None, Some e)
      | Inr s \<Rightarrow> (case body s of (v, e) \<Rightarrow> (v, leave e)))"

text \<open>
  \<^verbatim>\<open>BaseControllerLoop.refit_best_trial\<close>. The context managers
  \<^verbatim>\<open>resume_last_round\<close> and \<^verbatim>\<open>managed_best_trial\<close> belong to the module
  \<^verbatim>\<open>neuraxle.metaopt.data.aggregates\<close>, which is not modelled: their \<^verbatim>\<open>__enter__\<close> and \<^verbatim>\<open>__exit__\<close>
  are parameters. The variable \<^verbatim>\<open>refitted\<close> is bound only when
  \<^verbatim>\<open>Trainer.refit\<close> returns; \<^verbatim>\<open>return refitted\<close> on an unbound variable raises
  \<^verbatim>\<open>UnboundLocalError\<close>.
\<close>

definition refit_best_trial ::
  "py_error + 'r \<Rightarrow> (py_error option \<Rightarrow> py_error option)
     \<Rightarrow> ('r \<Rightarrow> py_error + 't) \<Rightarrow> (py_error option \<Rightarrow> py_error option)
     \<Rightarrow> 'p \<Rightarrow> 'd \<Rightarrow> py_error + 'p" where
  "refit_best_trial enter_round leave_round enter_trial leave_trial pipeline dact =
     (case with_statement enter_round leave_round
             (\<lambda>round_scope.
                with_statement (enter_trial round_scope) leave_trial
                  (\<lambda>managed_trial_scope.
                     case Trainer_refit pipeline dact managed_trial_scope of
                       Inl e \<Rightarrow> (None, Some e)
                     | Inr refitted \<Rightarrow> (Some refitted, None))) of
        (v, Some e) \<Rightarrow> Inl e
      | (Some refitted, None) \<Rightarrow> Inr refitted
      | (None, None) \<Rightarrow> Inl (UnboundLocalError ''refitted''))"

section \<open>Properties of scoped locations\<close>


text \<open>
  C9, first part: starting from the empty location, appending \<open>x\<close> and then \<open>y\<close> succeeds
  and the resulting location lists exactly \<open>[x, y]\<close>.
\<close>

lemma with_id_twice_as_list:
  "\<exists>l1 l2. with_id ScopedLocation_empty x = Inr l1 \<and> with_id l1 y = Inr l2
     \<and> as_list l2 = [x, y]"
  by (simp add: with_id_def ScopedLocation_init_def loc_of_args_def as_list_def ScopedLocation_empty_def
      dataclass_2_id_attr_keys_def numeral_eq_Suc)

lemma pop_then_with_id:
  assumes "prefix_invariant l" and "as_list l \<noteq> []"
  shows "fst (pop l) = Some (last (as_list l)) \<and> prefix_invariant (snd (pop l))
    \<and> as_list (snd (pop l)) = butlast (as_list l)
    \<and> with_id (snd (pop l)) (last (as_list l)) = Inr l"
proof -
  obtain a b c d e f where l: "l = \<lparr>project_name = a, client_name = b, round_number = c,
      trial_number = d, split_number = e, metric_name = f\<rparr>"
    by (cases l) auto
  show ?thesis
    using assms unfolding l
    by (cases a; cases b; cases c; cases d; cases e; cases f;
        simp add: prefix_invariant_def as_list_def pop_def with_id_def ScopedLocation_init_def loc_of_args_def
          dataclass_2_id_attr_keys_def numeral_eq_Suc)
qed

text \<open>
  C9. Starting from the empty location, \<open>with_id x\<close> followed by \<open>with_id y\<close> succeeds and
  \<open>as_list\<close> of the result is \<open>[x, y]\<close>, for all ids \<open>x\<close> and \<open>y\<close>. For every scoped
  location of the data model (the prefix invariant holds) with at least one set
  coordinate, \<open>pop\<close> returns a value \<open>v\<close>, and \<open>with_id v\<close> on the location that \<open>pop\<close>
  leaves behind yields a location equal to the original one.
\<close>

theorem with_id_as_list_and_pop_roundtrip:
  "(\<exists>l1 l2. with_id ScopedLocation_empty x = Inr l1 \<and> with_id l1 y = Inr l2
      \<and> as_list l2 = [x, y])
   \<and> (prefix_invariant l \<and> as_list l \<noteq> [] \<longrightarrow>
      (\<exists>v l'. pop l = (Some v, l') \<and> with_id l' v = Inr l))"
proof (intro conjI impI)
  show "\<exists>l1 l2. with_id ScopedLocation_empty x = Inr l1 \<and> with_id l1 y = Inr l2
      \<and> as_list l2 = [x, y]"
    by (rule with_id_twice_as_list)
next
  assume h: "prefix_invariant l \<and> as_list l \<noteq> []"
  then have "fst (pop l) = Some (last (as_list l))
      \<and> with_id (snd (pop l)) (last (as_list l)) = Inr l"
    using pop_then_with_id [of l] by simp
  then have "pop l = (Some (last (as_list l)), snd (pop l))
      \<and> with_id (snd (pop l)) (last (as_list l)) = Inr l"
    by (simp add: prod_eq_iff)
  then show "\<exists>v l'. pop l = (Some v, l') \<and> with_id l' v = Inr l"
    by blast
qed

theorem with_id_as_list_and_pop_roundtrip_witness:
  "prefix_invariant
     \<lparr>project_name = Some (AttrStr ''p''), client_name = Some (AttrStr ''c''),
      round_number = Some (AttrInt 3), trial_number = None, split_number = None,
      metric_name = None\<rparr>
   \<and> as_list
     \<lparr>project_name = Some (AttrStr ''p''), client_name = Some (AttrStr ''c''),
      round_number = Some (AttrInt 3), trial_number = None, split_number = None,
      metric_name = None\<rparr> \<noteq> []
   \<and> (\<exists>l1 l2. with_id ScopedLocation_empty (AttrStr ''p'') = Inr l1
        \<and> with_id l1 (AttrInt 7) = Inr l2 \<and> as_list l2 = [AttrStr ''p'', AttrInt 7])
   \<and> (\<exists>v l'. pop
        \<lparr>project_name = Some (AttrStr ''p''), client_name = Some (AttrStr ''c''),
         round_number = Some (AttrInt 3), trial_number = None, split_number = None,
         metric_name = None\<rparr> = (Some v, l')
      \<and> with_id l' v =
        Inr \<lparr>project_name = Some (AttrStr ''p''), client_name = Some (AttrStr ''c''),
         round_number = Some (AttrInt 3), trial_number = None, split_number = None,
         metric_name = None\<rparr>)"
  using with_id_as_list_and_pop_roundtrip [of "AttrStr ''p''" "AttrInt 7"
      "\<lparr>project_name = Some (AttrStr ''p''), client_name = Some (AttrStr ''c''),
        round_number = Some (AttrInt 3), trial_number = None, split_number = None,
        metric_name = None\<rparr>"]
  by (simp add: prefix_invariant_def as_list_def dataclass_2_id_attr_keys_def)

section \<open>Properties of store\<close>

lemma od_set_mem: "(k, v) \<in> set (od_set kvs k v)"
  by (induction kvs) auto

lemma map_of_od_set_same: "map_of (od_set kvs k v) k = Some v"
  by (induction kvs) auto


lemma od_set_keys: "fst ` set (od_set kvs k v) = insert k (fst ` set kvs)"
proof (induction kvs)
  case Nil
  show ?case by simp
next
  case (Cons p kvs)
  obtain k' v' where p: "p = (k', v')" by (cases p)
  show ?case
  proof (cases "k' = k")
    case True
    then show ?thesis by (simp add: p)
  next
    case False
    then show ?thesis using Cons.IH by (simp add: p insert_commute)
  qed
qed

lemma od_set_key_check: "list_all P (map fst (od_set kvs k v)) \<Longrightarrow> P k"
  using od_set_mem [of k v kvs] by (auto simp: list_all_iff)

lemma od_set_value_check: "list_all P (map snd (od_set kvs k v)) \<Longrightarrow> P v"
  using od_set_mem [of k v kvs] by (force simp: list_all_iff)

text \<open>
  C3. For a node with a list-keyed sublocation of length \<open>L\<close>: storing a child whose id
  is \<open>L\<close> appends it (the length becomes \<open>L + 1\<close>); storing a child whose id is an
  existing index in \<open>[0, L)\<close> overwrites that slot and leaves the length unchanged;
  storing a child whose id is strictly greater than \<open>L\<close> raises an error (and leaves the
  node as it was).
\<close>

theorem list_store_append_overwrite_gap:
  assumes "mixin_of (klass self) = DataclassHasListMixin"
    and "get_sublocation self = PyList xs"
  shows "(get_id c1 = Some (AttrInt (int (length xs))) \<longrightarrow>
            store self c1 = (Node (own self) (PyList (xs @ [Dc c1])), Inr (get_id c1))
            \<and> container_len (get_sublocation (fst (store self c1))) = length xs + 1)
       \<and> (get_id c2 = Some (AttrInt i) \<and> 0 \<le> i \<and> i < int (length xs) \<longrightarrow>
            store self c2 = (Node (own self) (PyList (xs[nat i := Dc c2])), Inr (get_id c2))
            \<and> container_len (get_sublocation (fst (store self c2))) = length xs)
       \<and> (get_id c3 = Some (AttrInt j) \<and> int (length xs) < j \<longrightarrow>
            store self c3 = (self, Inl ValueError))"
  using assms
  by (auto simp: store_def store_list_def py_index_def Let_def)

theorem list_store_append_overwrite_gap_witness:
  "mixin_of (klass (Node (ClientFields (Some (AttrStr ''c'')) None)
       (PyList [Dc (Node (RoundFields (Some (AttrInt 0))) (PyList []))])))
     = DataclassHasListMixin
   \<and> get_sublocation (Node (ClientFields (Some (AttrStr ''c'')) None)
       (PyList [Dc (Node (RoundFields (Some (AttrInt 0))) (PyList []))]))
     = PyList [Dc (Node (RoundFields (Some (AttrInt 0))) (PyList []))]
   \<and> get_id (Node (RoundFields (Some (AttrInt 1))) (PyList []))
     = Some (AttrInt (int (length [Dc (Node (RoundFields (Some (AttrInt 0))) (PyList []))])))
   \<and> store (Node (ClientFields (Some (AttrStr ''c'')) None)
         (PyList [Dc (Node (RoundFields (Some (AttrInt 0))) (PyList []))]))
       (Node (RoundFields (Some (AttrInt 1))) (PyList []))
     = (Node (ClientFields (Some (AttrStr ''c'')) None)
         (PyList [Dc (Node (RoundFields (Some (AttrInt 0))) (PyList [])),
                  Dc (Node (RoundFields (Some (AttrInt 1))) (PyList []))]),
        Inr (Some (AttrInt 1)))
   \<and> get_id (Node (RoundFields (Some (AttrInt 0))) (PyList [Placeholder])) = Some (AttrInt 0)
   \<and> store (Node (ClientFields (Some (AttrStr ''c'')) None)
         (PyList [Dc (Node (RoundFields (Some (AttrInt 0))) (PyList []))]))
       (Node (RoundFields (Some (AttrInt 0))) (PyList [Placeholder]))
     = (Node (ClientFields (Some (AttrStr ''c'')) None)
         (PyList [Dc (Node (RoundFields (Some (AttrInt 0))) (PyList [Placeholder]))]),
        Inr (Some (AttrInt 0)))
   \<and> get_id (Node (RoundFields (Some (AttrInt 5))) (PyList [])) = Some (AttrInt 5)
   \<and> store (Node (ClientFields (Some (AttrStr ''c'')) None)
         (PyList [Dc (Node (RoundFields (Some (AttrInt 0))) (PyList []))]))
       (Node (RoundFields (Some (AttrInt 5))) (PyList []))
     = (Node (ClientFields (Some (AttrStr ''c'')) None)
         (PyList [Dc (Node (RoundFields (Some (AttrInt 0))) (PyList []))]),
        Inl ValueError)"
  using list_store_append_overwrite_gap
    [of "Node (ClientFields (Some (AttrStr ''c'')) None)
           (PyList [Dc (Node (RoundFields (Some (AttrInt 0))) (PyList []))])"
        "[Dc (Node (RoundFields (Some (AttrInt 0))) (PyList []))]"
        "Node (RoundFields (Some (AttrInt 1))) (PyList [])"
        "Node (RoundFields (Some (AttrInt 0))) (PyList [Placeholder])" 0
        "Node (RoundFields (Some (AttrInt 5))) (PyList [])" 5]
  by (simp add: klass_def get_id_def)

text \<open>
  C4 as stated fails: the dictionary mixin writes the entry before it checks the
  invariant. Storing a client into a root (a wrong child type) raises
  \<^verbatim>\<open>ValueError\<close>, and the root's sublocation then holds the client.
\<close>

theorem odict_store_failed_keeps_write:
  "snd (store
      (Node RootFields (OrderedDict [(Some (AttrStr ''default_project''), Placeholder)]))
      (Node (ClientFields (Some (AttrStr ''x'')) None) (PyList [])))
     = Inl ValueError
   \<and> get_sublocation (fst (store
      (Node RootFields (OrderedDict [(Some (AttrStr ''default_project''), Placeholder)]))
      (Node (ClientFields (Some (AttrStr ''x'')) None) (PyList []))))
     = OrderedDict
        [(Some (AttrStr ''default_project''), Placeholder),
         (Some (AttrStr ''x''), Dc (Node (ClientFields (Some (AttrStr ''x'')) None) (PyList [])))]
   \<and> get_sublocation (fst (store
      (Node RootFields (OrderedDict [(Some (AttrStr ''default_project''), Placeholder)]))
      (Node (ClientFields (Some (AttrStr ''x'')) None) (PyList []))))
     \<noteq> get_sublocation
      (Node RootFields (OrderedDict [(Some (AttrStr ''default_project''), Placeholder)]))"
  by (simp add: store_def store_odict_def klass_def get_id_def)

text \<open>
  C4, amended. A map-keyed node validates after the write: when the child has the wrong
  type or its id is not a string, \<open>store\<close> raises \<^verbatim>\<open>ValueError\<close> and the node's
  sublocation holds the child under its id. A list-keyed node rejects an id greater than
  its length before any write (the node is unchanged), and it does not check the type of
  the child: a child of any type whose id is the length is appended without an error.
\<close>

theorem store_invariant_violation:
  "(mixin_of (klass self) = DataclassHasOrderedDictMixin
      \<and> get_sublocation self = OrderedDict kvs
      \<and> (\<not> is_str_key (get_id c) \<or> dataclass_2_subdataclass (klass self) \<noteq> Some (klass c))
     \<longrightarrow> store self c
          = (Node (own self) (OrderedDict (od_set kvs (get_id c) (Dc c))), Inl ValueError)
        \<and> map_of (od_set kvs (get_id c) (Dc c)) (get_id c) = Some (Dc c))
   \<and> (mixin_of (klass lself) = DataclassHasListMixin
      \<and> get_sublocation lself = PyList xs
      \<and> get_id d = Some (AttrInt j) \<and> int (length xs) < j
     \<longrightarrow> store lself d = (lself, Inl ValueError))
   \<and> (mixin_of (klass lself) = DataclassHasListMixin
      \<and> get_sublocation lself = PyList xs
      \<and> get_id d' = Some (AttrInt (int (length xs)))
     \<longrightarrow> store lself d' = (Node (own lself) (PyList (xs @ [Dc d'])), Inr (get_id d')))"
proof (intro conjI impI)
  assume h: "mixin_of (klass self) = DataclassHasOrderedDictMixin
      \<and> get_sublocation self = OrderedDict kvs
      \<and> (\<not> is_str_key (get_id c) \<or> dataclass_2_subdataclass (klass self) \<noteq> Some (klass c))"
  let ?kvs' = "od_set kvs (get_id c) (Dc c)"
  obtain sc where sc: "dataclass_2_subdataclass (klass self) = Some sc"
    using h by (cases "klass self") auto
  have "\<not> list_all is_str_key (map fst ?kvs') \<or> \<not> list_all (value_ok sc) (map snd ?kvs')"
  proof (rule ccontr)
    assume "\<not> ?thesis"
    then have "is_str_key (get_id c)" and "value_ok sc (Dc c)"
      using od_set_key_check [of is_str_key kvs "get_id c" "Dc c"]
        od_set_value_check [of "value_ok sc" kvs "get_id c" "Dc c"]
      by auto
    then show False
      using h sc by auto
  qed
  then have "invariant_error (klass self) (OrderedDict ?kvs') = Some ValueError"
    using h sc by auto
  then show "store self c = (Node (own self) (OrderedDict ?kvs'), Inl ValueError)"
    using h by (simp add: store_def store_odict_def)
  show "map_of ?kvs' (get_id c) = Some (Dc c)"
    by (rule map_of_od_set_same)
next
  assume "mixin_of (klass lself) = DataclassHasListMixin
      \<and> get_sublocation lself = PyList xs
      \<and> get_id d = Some (AttrInt j) \<and> int (length xs) < j"
  then show "store lself d = (lself, Inl ValueError)"
    by (auto simp: store_def store_list_def Let_def)
next
  assume "mixin_of (klass lself) = DataclassHasListMixin
      \<and> get_sublocation lself = PyList xs
      \<and> get_id d' = Some (AttrInt (int (length xs)))"
  then show "store lself d' = (Node (own lself) (PyList (xs @ [Dc d'])), Inr (get_id d'))"
    by (auto simp: store_def store_list_def Let_def)
qed

theorem store_invariant_violation_witness:
  "mixin_of (klass (Node RootFields (OrderedDict []))) = DataclassHasOrderedDictMixin
   \<and> get_sublocation (Node RootFields (OrderedDict [])) = OrderedDict []
   \<and> dataclass_2_subdataclass (klass (Node RootFields (OrderedDict [])))
      \<noteq> Some (klass (Node (RoundFields (Some (AttrInt 3))) (PyList [])))
   \<and> store (Node RootFields (OrderedDict [])) (Node (RoundFields (Some (AttrInt 3))) (PyList []))
      = (Node RootFields
           (OrderedDict [(Some (AttrInt 3), Dc (Node (RoundFields (Some (AttrInt 3))) (PyList [])))]),
         Inl ValueError)
   \<and> mixin_of (klass (Node (RoundFields (Some (AttrInt 0))) (PyList []))) = DataclassHasListMixin
   \<and> get_sublocation (Node (RoundFields (Some (AttrInt 0))) (PyList [])) = PyList []
   \<and> get_id (Node (ProjectFields (Some (AttrInt 2))) (OrderedDict [])) = Some (AttrInt 2)
   \<and> store (Node (RoundFields (Some (AttrInt 0))) (PyList []))
        (Node (ProjectFields (Some (AttrInt 2))) (OrderedDict []))
      = (Node (RoundFields (Some (AttrInt 0))) (PyList []), Inl ValueError)
   \<and> get_id (Node (ProjectFields (Some (AttrInt 0))) (OrderedDict [])) = Some (AttrInt 0)
   \<and> store (Node (RoundFields (Some (AttrInt 0))) (PyList []))
        (Node (ProjectFields (Some (AttrInt 0))) (OrderedDict []))
      = (Node (RoundFields (Some (AttrInt 0)))
           (PyList [Dc (Node (ProjectFields (Some (AttrInt 0))) (OrderedDict []))]),
         Inr (Some (AttrInt 0)))"
  using store_invariant_violation
    [of "Node RootFields (OrderedDict [])" "[]"
        "Node (RoundFields (Some (AttrInt 3))) (PyList [])"
        "Node (RoundFields (Some (AttrInt 0))) (PyList [])" "[]"
        "Node (ProjectFields (Some (AttrInt 2))) (OrderedDict [])" 2
        "Node (ProjectFields (Some (AttrInt 0))) (OrderedDict [])"]
  by (simp add: klass_def get_id_def)

section \<open>Properties of the in-memory repository\<close>

lemma as_list_length_le: "length (as_list l) \<le> 6"
proof -
  have "length (until_None xs) \<le> length xs" for xs :: "ScopedLocationAttr option list"
    by (induction xs rule: until_None.induct) auto
  from this [of "map (loc_getattr l) dataclass_2_id_attr_keys"]
  show ?thesis by (simp add: as_list_def dataclass_2_id_attr_keys_def)
qed







text \<open>
  C10, evaluated on the code. \<^verbatim>\<open>RootDataclass()\<close>, from which both repositories
  start, is the default two-level tree: exactly one project, under the key
  \<open>default_project\<close>, which holds exactly one client, under the key \<open>default_client\<close>,
  which has no rounds. A deep load of the root scope of a new in-memory repository
  returns this tree. The on-disk repository, whose constructor saves
  \<^verbatim>\<open>RootDataclass()\<close> deep, never returns it: whatever the cache folder holds, loading
  the root scope raises an error (a record that parses makes \<^verbatim>\<open>from_json\<close> raise
  \<^verbatim>\<open>AttributeError\<close>, and without a record \<^verbatim>\<open>new_dataclass_from_id\<close> raises
  \<^verbatim>\<open>IndexError\<close> on the empty scope).
\<close>

theorem fresh_repository_root_load:
  "RootDataclass_default =
     Node RootFields (OrderedDict
       [(Some (AttrStr ''default_project''),
         Dc (Node (ProjectFields (Some (AttrStr ''default_project'')))
           (OrderedDict
             [(Some (AttrStr ''default_client''),
               Dc (Node (ClientFields (Some (AttrStr ''default_client'')) None) (PyList [])))])))])
   \<and> load t1 t2 VanillaHyperparamsRepository_init ScopedLocation_empty True
     = Inr RootDataclass_default
   \<and> (\<exists>e. on_disk_load json_loads rest t1 t2 fs ScopedLocation_empty = Inl e)"
proof (intro conjI)
  show "RootDataclass_default =
     Node RootFields (OrderedDict
       [(Some (AttrStr ''default_project''),
         Dc (Node (ProjectFields (Some (AttrStr ''default_project'')))
           (OrderedDict
             [(Some (AttrStr ''default_client''),
               Dc (Node (ClientFields (Some (AttrStr ''default_client'')) None) (PyList [])))])))])"
    by (simp add: RootDataclass_default_def ProjectDataclass_default_def
        ClientDataclass_default_def DEFAULT_PROJECT_def DEFAULT_CLIENT_def)
  show "load t1 t2 VanillaHyperparamsRepository_init ScopedLocation_empty True
     = Inr RootDataclass_default"
    by (simp add: load_def getitem.simps VanillaHyperparamsRepository_init_def
        RootDataclass_default_def klass_def ScopedLocation_empty_def)
  have "new_dataclass_from_id t1 t2 ScopedLocation_empty = Inl IndexError"
    by (simp add: new_dataclass_from_id_def as_list_def ScopedLocation_empty_def
        dataclass_2_id_attr_keys_def)
  then show "\<exists>e. on_disk_load json_loads rest t1 t2 fs ScopedLocation_empty = Inl e"
    by (auto simp: on_disk_load_def load_dc_def load_json_file_def from_json_def
        split: sum.splits option.splits py_error.splits)
qed

lemma getitem_KeyError_coordinate:
  "getitem self loc = Inl KeyError \<Longrightarrow> \<exists>c. loc_getattr loc c \<noteq> None"
proof (induction self loc rule: getitem.induct)
  case (1 self loc)
  show ?case
  proof (cases "dataclass_2_subdataclass (klass self)")
    case None
    then show ?thesis using "1.prems" by (simp add: getitem.simps)
  next
    case (Some sc)
    show ?thesis
    proof (cases "loc_getattr loc sc")
      case None
      then show ?thesis using "1.prems" Some by (simp add: getitem.simps)
    next
      case (Some a)
      then show ?thesis by auto
    qed
  qed
qed

lemma prefix_nonempty:
  assumes "prefix_invariant l" and "loc_getattr l c \<noteq> None"
  shows "as_list l \<noteq> []"
proof -
  obtain a b c' d e f where l: "l = \<lparr>project_name = a, client_name = b, round_number = c',
      trial_number = d, split_number = e, metric_name = f\<rparr>"
    by (cases l) auto
  show ?thesis
    using assms unfolding l
    by (cases a; cases c; simp add: prefix_invariant_def as_list_def dataclass_2_id_attr_keys_def)
qed

lemma new_dataclass_from_id_result:
  assumes "as_list s \<noteq> []"
  shows "\<exists>n. new_dataclass_from_id t1 t2 s = Inr n
     \<and> klass n = dataclass_2_id_attr_keys ! (loc_len s - 1)
     \<and> (klass n \<noteq> TrialDataclass \<and> klass n \<noteq> TrialSplitDataclass
          \<longrightarrow> get_id n = Some (last (as_list s)))"
proof -
  have "length (as_list s) \<le> 6" by (rule as_list_length_le)
  then have "loc_len s - 1 < 6" by (simp add: loc_len_def)
  then have "loc_len s - 1 \<in> {0, 1, 2, 3, 4, 5}" by auto
  then show ?thesis
    using assms
    by (auto simp: new_dataclass_from_id_def Let_def loc_len_def dataclass_2_id_attr_keys_def
        klass_def get_id_def)
qed

text \<open>
  C2 as stated fails: the node returned for a project scope that has no record is not
  empty. \<^verbatim>\<open>ProjectDataclass(id)\<close> is built with the default of its \<^verbatim>\<open>clients\<close>
  field, so the new project already holds the client \<open>default_client\<close>.
\<close>

theorem load_missing_project_not_empty:
  "load 0 0 VanillaHyperparamsRepository_init
     (ScopedLocation_empty\<lparr>project_name := Some (AttrStr ''p2'')\<rparr>) True
   = Inr (Node (ProjectFields (Some (AttrStr ''p2'')))
       (OrderedDict
         [(Some (AttrStr ''default_client''),
           Dc (Node (ClientFields (Some (AttrStr ''default_client'')) None) (PyList [])))]))
   \<and> container_len (get_sublocation (Node (ProjectFields (Some (AttrStr ''p2'')))
       (OrderedDict
         [(Some (AttrStr ''default_client''),
           Dc (Node (ClientFields (Some (AttrStr ''default_client'')) None) (PyList [])))])))
     = 1"
  by (simp add: load_def getitem.simps VanillaHyperparamsRepository_init_def
      RootDataclass_default_def ProjectDataclass_default_def ClientDataclass_default_def
      DEFAULT_PROJECT_def DEFAULT_CLIENT_def klass_def ScopedLocation_empty_def
      get_sublocation_keys_def new_dataclass_from_id_def as_list_def
      dataclass_2_id_attr_keys_def shallow_def)

section \<open>Properties of the on-disk repository\<close>

lemma fs_lookup_parent:
  "fs_lookup fs (p @ [x]) = Some n \<Longrightarrow> \<exists>es. fs_lookup fs p = Some (Dir es) \<and> map_of es x = Some n"
proof (induction p arbitrary: fs)
  case Nil
  then show ?case by (cases fs) (auto split: option.splits)
next
  case (Cons y p)
  then show ?case by (cases fs) (auto split: option.splits)
qed

text \<open>
  C6. When the record file of a scope exists and its content does not parse as JSON,
  \<open>load\<close> raises the \<^verbatim>\<open>ValueError\<close> of \<^verbatim>\<open>_load_json_file\<close>, not a default node:
  the error reports the content, the path of the file and the listing of the directory
  that holds it (a listing that names the file). Loading writes nothing: the model of
  \<open>load\<close> has no file system among its results, so nothing is repaired.
\<close>

theorem corrupt_record_is_fatal:
  "fs_lookup fs (metadata_file scope) = Some (File content) \<and> json_loads content = None \<longrightarrow>
   (\<exists>listing. fs_listdir fs (get_folder_at_scope scope) = Inr listing
      \<and> ''metadata.json'' \<in> set listing
      \<and> on_disk_load json_loads rest t1 t2 fs scope
          = Inl (InvalidJSONFile content (metadata_file scope) listing))"
proof
  assume h: "fs_lookup fs (metadata_file scope) = Some (File content) \<and> json_loads content = None"
  then obtain es where es: "fs_lookup fs (get_folder_at_scope scope) = Some (Dir es)"
    and m: "map_of es ''metadata.json'' = Some (File content)"
    using fs_lookup_parent [of fs "get_folder_at_scope scope" "''metadata.json''" "File content"]
    by (auto simp: metadata_file_def)
  have "''metadata.json'' \<in> set (map fst es)"
    using m by (metis map_of_eq_None_iff option.distinct(1) set_map)
  then show "\<exists>listing. fs_listdir fs (get_folder_at_scope scope) = Inr listing
      \<and> ''metadata.json'' \<in> set listing
      \<and> on_disk_load json_loads rest t1 t2 fs scope
          = Inl (InvalidJSONFile content (metadata_file scope) listing)"
    using h es
    by (simp add: on_disk_load_def load_dc_def load_json_file_def fs_exists_def fs_read_def
        fs_listdir_def metadata_file_def)
qed

theorem corrupt_record_is_fatal_witness:
  "fs_lookup (Dir [(''_p'', Dir [(''log.txt'', File []), (''metadata.json'', File ''{oops'')])])
     (metadata_file (ScopedLocation_empty\<lparr>project_name := Some (AttrStr ''p'')\<rparr>))
     = Some (File ''{oops'')
   \<and> (\<lambda>s. None :: unit option) ''{oops'' = None
   \<and> (\<exists>listing. fs_listdir
          (Dir [(''_p'', Dir [(''log.txt'', File []), (''metadata.json'', File ''{oops'')])])
          (get_folder_at_scope (ScopedLocation_empty\<lparr>project_name := Some (AttrStr ''p'')\<rparr>))
          = Inr listing
      \<and> ''metadata.json'' \<in> set listing
      \<and> on_disk_load (\<lambda>s. None :: unit option) Inr 0 0
          (Dir [(''_p'', Dir [(''log.txt'', File []), (''metadata.json'', File ''{oops'')])])
          (ScopedLocation_empty\<lparr>project_name := Some (AttrStr ''p'')\<rparr>)
          = Inl (InvalidJSONFile ''{oops''
              (metadata_file (ScopedLocation_empty\<lparr>project_name := Some (AttrStr ''p'')\<rparr>))
              listing))"
  using corrupt_record_is_fatal
    [of "Dir [(''_p'', Dir [(''log.txt'', File []), (''metadata.json'', File ''{oops'')])]"
        "ScopedLocation_empty\<lparr>project_name := Some (AttrStr ''p'')\<rparr>" "''{oops''"
        "\<lambda>s. None :: unit option" Inr 0 0]
  by (simp add: metadata_file_def get_folder_at_scope_def as_list_def ScopedLocation_empty_def
      dataclass_2_id_attr_keys_def ON_DISK_DELIM_def)

text \<open>
  C7, evaluated on the code. For a round whose folder lists the trial directories
  \<open>_2\<close>, \<open>_10\<close> and \<open>_1\<close>, the keys that \<^verbatim>\<open>_load_dc_sublocation_keys\<close> computes are
  \<open>[1, 10, 2]\<close>: the names are sorted as strings and converted to integers afterwards,
  so index 10 comes before index 2. The keys of a map-keyed node are sorted as strings.
  And a load of a record that exists and parses does not return: \<^verbatim>\<open>from_json\<close>
  raises \<^verbatim>\<open>AttributeError\<close>.
\<close>

theorem list_keys_sorted_as_strings:
  "sublocs_of_listing RoundDataclass [''_2'', ''_10'', ''_1'', ''metadata.json'']
     = Inr [AttrInt 1, AttrInt 10, AttrInt 2]
   \<and> sublocs_of_listing RootDataclass [''_b'', ''_a'', ''metadata.json'']
     = Inr [AttrStr ''a'', AttrStr ''b'']
   \<and> on_disk_load (\<lambda>s. Some s) Inr 0 0 (Dir [(''metadata.json'', File ''{}'')])
       ScopedLocation_empty
     = Inl AttributeError"
  by code_simp

section \<open>Properties of refitting\<close>

lemma Trainer_refit_raises: "Trainer_refit pipeline dact s = Inl (NameError ''context'')"
  by (simp add: Trainer_refit_def lookup_name_def auto_ml_module_names_def
      python_builtin_names_def)

text \<open>
  C8, evaluated on the code. Whatever the context managers of the round and of the best
  trial do, \<^verbatim>\<open>refit_best_trial\<close> returns no pipeline: \<^verbatim>\<open>Trainer.refit\<close> raises
  \<^verbatim>\<open>NameError\<close> on the name \<^verbatim>\<open>context\<close> before it fits anything, and when a context
  manager swallows that exception the \<^verbatim>\<open>return\<close> statement finds \<^verbatim>\<open>refitted\<close>
  unbound.
\<close>

theorem refit_best_trial_never_returns:
  "Trainer_refit pipeline dact trial_scope = Inl (NameError ''context'')
   \<and> (\<exists>e. refit_best_trial enter_round leave_round enter_trial leave_trial pipeline dact
          = Inl e)"
proof (intro conjI)
  show "Trainer_refit pipeline dact trial_scope = Inl (NameError ''context'')"
    by (rule Trainer_refit_raises)
  show "\<exists>e. refit_best_trial enter_round leave_round enter_trial leave_trial pipeline dact
          = Inl e"
    by (cases enter_round; simp add: refit_best_trial_def with_statement_def
        Trainer_refit_raises split: sum.splits option.splits prod.splits)
qed

section \<open>The scope check of save\<close>





section \<open>A save that is not deep keeps the descendants\<close>

lemma prefix_loc_of_args:
  assumes "prefix_invariant l"
  shows "l = loc_of_args (map Some (as_list l))"
proof -
  obtain a b c d e f where l: "l = \<lparr>project_name = a, client_name = b, round_number = c,
      trial_number = d, split_number = e, metric_name = f\<rparr>"
    by (cases l) auto
  show ?thesis
    using assms unfolding l
    by (cases a; cases b; cases c; cases d; cases e; cases f;
        simp add: prefix_invariant_def as_list_def loc_of_args_def
          dataclass_2_id_attr_keys_def numeral_eq_Suc)
qed



lemma sub_index:
  "dataclass_2_subdataclass c = Some sc \<Longrightarrow>
     id_attr_index sc = subloc_attr_index c \<and> subloc_attr_index sc = subloc_attr_index c + 1
     \<and> sc \<noteq> RootDataclass"
  by (cases c) auto













lemma getitem_step:
  assumes "dataclass_2_subdataclass (klass self) = Some sc" and "loc_getattr s sc = Some a"
    and "get_sublocation_keys self = Inr ks" and "Some a \<in> set ks"
    and "container_getitem (get_sublocation self) (Some a) = Inr (Dc child)"
  shows "getitem self s = getitem child s"
  by (subst getitem.simps) (simp add: assms)

lemma node_collapse: "Node (own X) (get_sublocation X) = X"
  by (cases X) simp














section \<open>The walk of store follows the lookup\<close>

text \<open>
  \<open>store_at\<close> raises exactly where \<^verbatim>\<open>self.root[scope]\<close> raises, leaving the tree as it
  was, and otherwise ends as \<open>store\<close> on the object found.
\<close>

lemma od_set_same: "map_of kvs k = Some v \<Longrightarrow> od_set kvs k v = kvs"
  by (induction kvs) (auto split: if_splits)

lemma container_put_same:
  assumes "container_getitem s k = Inr it"
  shows "container_put s k it = s"
proof (cases s)
  case (OrderedDict kvs)
  then have "map_of kvs k = Some it"
    using assms by (auto split: option.splits)
  then show ?thesis
    using OrderedDict by (simp add: container_put_def od_set_same)
next
  case (PyList xs)
  from assms obtain i where k: "k = Some (AttrInt i)"
    using PyList by (cases k rule: is_str_key.cases) auto
  from assms obtain j where j: "py_index (length xs) i = Inr j" and it: "it = xs ! j"
    using PyList k by (auto split: sum.splits)
  then show ?thesis
    using PyList k by (simp add: container_put_def)
qed

lemma store_at_follows_getitem:
  "(getitem self loc = Inl e \<longrightarrow> store_at self loc dc = (self, Some e))
   \<and> (getitem self loc = Inr t \<longrightarrow> snd (store_at self loc dc) = snd (store_result t dc))"
proof (induction self loc arbitrary: e t rule: getitem.induct)
  case (1 self loc)
  show ?case
  proof (cases "dataclass_2_subdataclass (klass self)")
    case None
      have g: "getitem self loc = Inr self"
        using None by (subst getitem.simps) simp
      have s: "store_at self loc dc = store_result self dc"
        using None by (subst store_at.simps) simp
      show ?thesis
        using g s by auto
  next
    case (Some sc)
    note sc = this
    show ?thesis
    proof (cases "loc_getattr loc sc")
      case None
      have g: "getitem self loc = Inr self"
        using sc None by (subst getitem.simps) simp
      have s: "store_at self loc dc = store_result self dc"
        using sc None by (subst store_at.simps) simp
      show ?thesis
        using g s by auto
    next
      case (Some a)
      note a = this
      show ?thesis
      proof (cases "get_sublocation_keys self")
        case (Inl e')
      have g: "getitem self loc = Inl e'"
        using sc a Inl by (subst getitem.simps) simp
      have s: "store_at self loc dc = (self, Some e')"
        using sc a Inl by (subst store_at.simps) simp
      show ?thesis
        using g s by auto
      next
        case (Inr ks)
        note ks = this
        show ?thesis
        proof (cases "Some a \<in> set ks")
          case False
          show ?thesis
          proof (cases "shallow self")
            case (Inl e')
            have g: "getitem self loc = Inl e'"
              using sc a ks False Inl by (subst getitem.simps) simp
            have s: "store_at self loc dc = (self, Some e')"
              using sc a ks False Inl by (subst store_at.simps) simp
            show ?thesis
              using g s by auto
          next
            case (Inr sh)
            have g: "getitem self loc = Inl KeyError"
              using sc a ks False Inr by (subst getitem.simps) simp
            have s: "store_at self loc dc = (self, Some KeyError)"
              using sc a ks False Inr by (subst store_at.simps) simp
            show ?thesis
              using g s by auto
          qed
        next
          case True
          show ?thesis
          proof (cases "container_getitem (get_sublocation self) (Some a)")
            case (Inl e')
      have g: "getitem self loc = Inl e'"
        using sc a ks True Inl by (subst getitem.simps) simp
      have s: "store_at self loc dc = (self, Some e')"
        using sc a ks True Inl by (subst store_at.simps) simp
      show ?thesis
        using g s by auto
          next
            case (Inr it)
            note it = this
            show ?thesis
            proof (cases it)
              case Placeholder
      have g: "getitem self loc = Inl TypeError"
        using sc a ks True it Placeholder by (subst getitem.simps) simp
      have s: "store_at self loc dc = (self, Some TypeError)"
        using sc a ks True it Placeholder by (subst store_at.simps) simp
      show ?thesis
        using g s by auto
            next
              case (FloatValue x)
      have g: "getitem self loc = Inl TypeError"
        using sc a ks True it FloatValue by (subst getitem.simps) simp
      have s: "store_at self loc dc = (self, Some TypeError)"
        using sc a ks True it FloatValue by (subst store_at.simps) simp
      show ?thesis
        using g s by auto
            next
              case (Dc child)
              have g: "getitem self loc = getitem child loc"
                using sc a ks True it Dc by (subst getitem.simps) simp
              have s: "store_at self loc dc =
                  (Node (own self)
                     (container_put (get_sublocation self) (Some a)
                        (Dc (fst (store_at child loc dc)))),
                   snd (store_at child loc dc))"
                using sc a ks True it Dc
                by (subst store_at.simps) (simp split: prod.splits)
              have ih: "(getitem child loc = Inl e \<longrightarrow> store_at child loc dc = (child, Some e))
                \<and> (getitem child loc = Inr t \<longrightarrow>
                      snd (store_at child loc dc) = snd (store_result t dc))"
                using "1.IH" [OF sc a ks _ it Dc] True by simp
              have put: "container_put (get_sublocation self) (Some a) (Dc child)
                  = get_sublocation self"
                using container_put_same it Dc by blast
              show ?thesis
                using g s ih put by (auto simp: node_collapse)
            qed
          qed
        qed
      qed
    qed
  qed
qed

section \<open>Loading an address that has no record\<close>

lemma nth_or_None_map_Some:
  "nth_or_None (map Some xs) n = (if n < length xs then Some (xs ! n) else None)"
proof (induction xs arbitrary: n)
  case Nil
  then show ?case by simp
next
  case (Cons x xs)
  then show ?case by (cases n) auto
qed

lemma prefix_coordinate:
  assumes "prefix_invariant s" and "sc \<noteq> RootDataclass"
  shows "loc_getattr s sc =
    (if id_attr_index sc < length (as_list s) then Some (as_list s ! id_attr_index sc) else None)"
proof -
  have "loc_getattr (loc_of_args args) sc = nth_or_None args (id_attr_index sc)" for args
    using assms(2) by (cases sc) (simp_all add: loc_of_args_def)
  then have "loc_getattr s sc = nth_or_None (map Some (as_list s)) (id_attr_index sc)"
    using prefix_loc_of_args [OF assms(1)] by metis
  then show ?thesis
    by (simp add: nth_or_None_map_Some)
qed

lemma well_formed_invariant:
  "well_formed X \<Longrightarrow> invariant_error (klass X) (get_sublocation X) = None"
  by (cases X) (simp add: klass_def)

lemma well_formed_item:
  assumes "well_formed X" and "dataclass_2_subdataclass (klass X) = Some sc"
    and "it \<in> set (container_items (get_sublocation X))"
  shows "\<exists>c. it = Dc c \<and> klass c = sc \<and> well_formed c"
proof -
  obtain f s where X: "X = Node f s" by (cases X)
  show ?thesis
    using assms unfolding X
    by (cases it) (auto simp: klass_def list_all_iff)
qed

lemma invariant_keys:
  assumes "invariant_error (klass X) (get_sublocation X) = None"
  shows "\<exists>ks. get_sublocation_keys X = Inr ks"
  using assms
  by (cases "get_sublocation X"; cases "mixin_of (klass X)")
    (auto simp: get_sublocation_keys_def)

lemma invariant_shallow:
  assumes "invariant_error (klass X) (get_sublocation X) = None"
  shows "\<exists>sh. shallow X = Inr sh"
proof (cases "mixin_of (klass X)")
  case DataclassHasListMixin
  then show ?thesis by (simp add: shallow_def)
next
  case DataclassHasOrderedDictMixin
  then obtain kvs where kvs: "get_sublocation X = OrderedDict kvs"
    using assms by (cases "get_sublocation X") auto
  have keys: "list_all is_str_key (map fst kvs)"
    using assms kvs DataclassHasOrderedDictMixin by (auto split: if_splits)
  have "invariant_error (klass X) (OrderedDict (map (\<lambda>kv. (fst kv, Placeholder)) kvs)) = None"
    using keys DataclassHasOrderedDictMixin
    by (auto simp: comp_def list_all_iff split: option.splits)
  then show ?thesis
    using kvs DataclassHasOrderedDictMixin by (simp add: shallow_def)
qed

lemma keys_getitem:
  assumes "get_sublocation_keys X = Inr ks" and "k \<in> set ks"
    and "invariant_error (klass X) (get_sublocation X) = None"
  shows "\<exists>it. container_getitem (get_sublocation X) k = Inr it
     \<and> (k, it) \<in> set (container_entries (get_sublocation X))"
proof (cases "get_sublocation X")
  case (OrderedDict kvs)
  then have mx: "mixin_of (klass X) = DataclassHasOrderedDictMixin"
    using assms(3) by (cases "mixin_of (klass X)") auto
  then have "k \<in> fst ` set kvs"
    using assms(1,2) OrderedDict by (auto simp: get_sublocation_keys_def)
  then obtain it where "map_of kvs k = Some it"
    by (metis map_of_eq_None_iff not_Some_eq)
  then show ?thesis
    using OrderedDict by (auto dest: map_of_SomeD)
next
  case (PyList xs)
  then have mx: "mixin_of (klass X) = DataclassHasListMixin"
    using assms(3) by (cases "mixin_of (klass X)") auto
  then obtain j where j: "k = Some (AttrInt (int j))" "j < length xs"
    using assms(1,2) PyList by (auto simp: get_sublocation_keys_def)
  have "(k, xs ! j) \<in> set (zip (map (\<lambda>i. Some (AttrInt (int i))) [0..<length xs]) xs)"
    using j by (auto simp: in_set_zip intro!: exI [of _ j])
  then show ?thesis
    using PyList j by (simp add: py_index_def)
qed

lemma descendant_keys_entry:
  assumes "(k, Dc c) \<in> set (container_entries s)"
  shows "[k] \<in> set (descendant_keys (Node f s))"
    and "p \<in> set (descendant_keys c) \<Longrightarrow> k # p \<in> set (descendant_keys (Node f s))"
  using assms by (force simp: image_iff)+

lemma sub_exists_lt: "subloc_attr_index c < 6 \<Longrightarrow> \<exists>sc. dataclass_2_subdataclass c = Some sc"
  by (cases c) auto

lemma getitem_missing:
  assumes pre: "prefix_invariant s"
  shows "loc = s \<Longrightarrow> well_formed X \<Longrightarrow> subloc_attr_index (klass X) \<le> length (as_list s) \<Longrightarrow>
    drop (subloc_attr_index (klass X)) (key_path s) \<notin> set ([] # descendant_keys X) \<Longrightarrow>
    getitem X loc = Inl KeyError"
proof (induction X loc rule: getitem.induct)
  case (1 self loc)
  note eq = \<open>loc = s\<close> and wf = \<open>well_formed self\<close>
  define d where "d = subloc_attr_index (klass self)"
  define xs where "xs = as_list s"
  have notin: "drop d (map Some xs) \<notin> set ([] # descendant_keys self)"
    using "1.prems" by (simp add: d_def xs_def key_path_def)
  then have "drop d (map Some xs) \<noteq> []"
    by auto
  then have dlt: "d < length xs"
    by simp
  have "length xs \<le> 6"
    unfolding xs_def by (rule as_list_length_le)
  then obtain sc where sc: "dataclass_2_subdataclass (klass self) = Some sc"
    using sub_exists_lt [of "klass self"] dlt d_def by auto
  have idx: "id_attr_index sc = d" "subloc_attr_index sc = d + 1" "sc \<noteq> RootDataclass"
    using sub_index [OF sc] d_def by auto
  define a where "a = xs ! d"
  have a: "loc_getattr s sc = Some a"
    using prefix_coordinate [OF pre idx(3)] idx(1) dlt by (simp add: a_def xs_def)
  have rest: "drop d (map Some xs) = Some a # drop (d + 1) (map Some xs)"
    using dlt by (simp add: a_def Cons_nth_drop_Suc [symmetric])
  have inv: "invariant_error (klass self) (get_sublocation self) = None"
    using wf by (rule well_formed_invariant)
  obtain ks where ks: "get_sublocation_keys self = Inr ks"
    using invariant_keys [OF inv] by blast
  show ?case
  proof (cases "Some a \<in> set ks")
    case False
    obtain sh where "shallow self = Inr sh"
      using invariant_shallow [OF inv] by blast
    then show ?thesis
      using sc a ks False eq by (subst getitem.simps) simp
  next
    case True
    obtain it where it: "container_getitem (get_sublocation self) (Some a) = Inr it"
      and ent: "(Some a, it) \<in> set (container_entries (get_sublocation self))"
      using keys_getitem [OF ks True inv] by blast
    have "it \<in> set (container_items (get_sublocation self))"
      using ent by (rule container_entries_items)
    then obtain child where child: "it = Dc child" "klass child = sc" "well_formed child"
      using well_formed_item [OF wf sc] by blast
    obtain f sub where self: "self = Node f sub"
      by (cases self)
    have ent': "(Some a, Dc child) \<in> set (container_entries sub)"
      using ent child self by simp
    have "drop (d + 1) (map Some xs) \<notin> set ([] # descendant_keys child)"
    proof
      assume "drop (d + 1) (map Some xs) \<in> set ([] # descendant_keys child)"
      then have "Some a # drop (d + 1) (map Some xs) \<in> set (descendant_keys (Node f sub))"
        using descendant_keys_entry [OF ent', where f = f]
        by (auto simp del: descendant_keys.simps)
      then show False
        using notin rest self by (simp del: descendant_keys.simps)
    qed
    then have "drop (subloc_attr_index (klass child)) (key_path s)
        \<notin> set ([] # descendant_keys child)"
      using child idx by (simp add: xs_def key_path_def)
    moreover have "subloc_attr_index (klass child) \<le> length (as_list s)"
      using child idx dlt by (simp add: xs_def)
    ultimately have "getitem child loc = Inl KeyError"
      using "1.IH" [OF sc _ ks _ it child(1) eq child(3)] a True eq by simp
    moreover have "getitem self loc = getitem child loc"
      using getitem_step [OF sc a ks True] it child eq by simp
    ultimately show ?thesis
      by simp
  qed
qed

text \<open>
  C2, amended. For every repository whose tree is stored in full (every object satisfies
  the invariant of its mixin and holds objects of its subdataclass, no placeholders) and
  every scope of the data model whose key path is not among the key paths of the tree,
  \<open>load\<close> raises no error and returns the object that the constructor of the class of
  the scope's last coordinate builds from that coordinate, every other field at its
  default. For a project, client, round and metric-result scope the id of the object is
  that coordinate. (A new project holds the default client.) On disk the same holds
  for a scope other than the root scope whose record file does not exist.
\<close>

theorem load_missing_record:
  "(well_formed root \<and> klass root = RootDataclass \<and> prefix_invariant s
      \<and> key_path s \<notin> set ([] # descendant_keys root) \<longrightarrow>
      (\<exists>n. load t1 t2 root s deep = Inr n \<and> new_dataclass_from_id t1 t2 s = Inr n
         \<and> klass n = dataclass_2_id_attr_keys ! (loc_len s - 1)
         \<and> (klass n \<noteq> TrialDataclass \<and> klass n \<noteq> TrialSplitDataclass
              \<longrightarrow> get_id n = Some (last (as_list s)))))
   \<and> (as_list s' \<noteq> [] \<and> fs_lookup fs (metadata_file s') = None \<longrightarrow>
      (\<exists>n. on_disk_load json_loads rest t1 t2 fs s' = Inr n
         \<and> new_dataclass_from_id t1 t2 s' = Inr n
         \<and> klass n = dataclass_2_id_attr_keys ! (loc_len s' - 1)
         \<and> (klass n \<noteq> TrialDataclass \<and> klass n \<noteq> TrialSplitDataclass
              \<longrightarrow> get_id n = Some (last (as_list s')))))"
proof (intro conjI impI)
  assume h: "well_formed root \<and> klass root = RootDataclass \<and> prefix_invariant s
      \<and> key_path s \<notin> set ([] # descendant_keys root)"
  then have ne: "as_list s \<noteq> []"
    by (auto simp: key_path_def simp del: descendant_keys.simps)
  have "drop (subloc_attr_index (klass root)) (key_path s) \<notin> set ([] # descendant_keys root)"
    using h by (simp del: descendant_keys.simps)
  then have g: "getitem root s = Inl KeyError"
    using getitem_missing [of s s root] h by simp
  from new_dataclass_from_id_result [OF ne, of t1 t2]
  show "\<exists>n. load t1 t2 root s deep = Inr n \<and> new_dataclass_from_id t1 t2 s = Inr n
         \<and> klass n = dataclass_2_id_attr_keys ! (loc_len s - 1)
         \<and> (klass n \<noteq> TrialDataclass \<and> klass n \<noteq> TrialSplitDataclass
              \<longrightarrow> get_id n = Some (last (as_list s)))"
    using g by (auto simp: load_def)
next
  assume h: "as_list s' \<noteq> [] \<and> fs_lookup fs (metadata_file s') = None"
  then have "load_dc json_loads rest fs s' = Inl KeyError"
    by (simp add: load_dc_def load_json_file_def fs_exists_def)
  with new_dataclass_from_id_result [of s' t1 t2] h
  show "\<exists>n. on_disk_load json_loads rest t1 t2 fs s' = Inr n
         \<and> new_dataclass_from_id t1 t2 s' = Inr n
         \<and> klass n = dataclass_2_id_attr_keys ! (loc_len s' - 1)
         \<and> (klass n \<noteq> TrialDataclass \<and> klass n \<noteq> TrialSplitDataclass
              \<longrightarrow> get_id n = Some (last (as_list s')))"
    by (auto simp: on_disk_load_def)
qed

theorem load_missing_record_witness:
  "well_formed VanillaHyperparamsRepository_init
   \<and> klass VanillaHyperparamsRepository_init = RootDataclass
   \<and> prefix_invariant (ScopedLocation_empty\<lparr>project_name := Some (AttrStr ''p2'')\<rparr>)
   \<and> key_path (ScopedLocation_empty\<lparr>project_name := Some (AttrStr ''p2'')\<rparr>)
       \<notin> set ([] # descendant_keys VanillaHyperparamsRepository_init)
   \<and> as_list (ScopedLocation_empty\<lparr>project_name := Some (AttrStr ''p2'')\<rparr>) \<noteq> []
   \<and> fs_lookup (Dir []) (metadata_file (ScopedLocation_empty\<lparr>project_name := Some (AttrStr ''p2'')\<rparr>))
       = None
   \<and> (\<exists>n. load 0 0 VanillaHyperparamsRepository_init
            (ScopedLocation_empty\<lparr>project_name := Some (AttrStr ''p2'')\<rparr>) False = Inr n
         \<and> klass n = ProjectDataclass \<and> get_id n = Some (AttrStr ''p2''))
   \<and> (\<exists>n. on_disk_load (\<lambda>s. Some s) Inr 0 0 (Dir [])
            (ScopedLocation_empty\<lparr>project_name := Some (AttrStr ''p2'')\<rparr>) = Inr n
         \<and> klass n = ProjectDataclass \<and> get_id n = Some (AttrStr ''p2''))"
proof -
  let ?s = "ScopedLocation_empty\<lparr>project_name := Some (AttrStr ''p2'')\<rparr>"
  have a: "well_formed VanillaHyperparamsRepository_init
      \<and> klass VanillaHyperparamsRepository_init = RootDataclass \<and> prefix_invariant ?s
      \<and> key_path ?s \<notin> set ([] # descendant_keys VanillaHyperparamsRepository_init)"
    by code_simp
  have b: "as_list ?s \<noteq> [] \<and> fs_lookup (Dir []) (metadata_file ?s) = None"
    by code_simp
  have c: "dataclass_2_id_attr_keys ! (loc_len ?s - 1) = ProjectDataclass
      \<and> last (as_list ?s) = AttrStr ''p2''"
    by code_simp
  show ?thesis
    using load_missing_record [of VanillaHyperparamsRepository_init ?s 0 0 False ?s "Dir []"
        "\<lambda>s. Some s" Inr] a b c
    by (auto simp del: descendant_keys.simps)
qed


end
